theory Spec2Isabelle
  imports Main
begin

section \<open>Data model of \<open>ch341_factory.py\<close>\<close>

text \<open>
  A Python \<open>str\<close> is a sequence of Unicode code points and \<open>len\<close> counts code points,
  so a string is a list of code points. A literal of the source is written with \<open>ords\<close>.
  A \<open>bytearray\<close> is a list of integers, each in \<open>range(0, 256)\<close>.
\<close>

type_synonym pystr = "nat list"

definition ords :: "string \<Rightarrow> pystr" where
  "ords s = map of_char s"

text \<open>
  The exceptions the program can raise. The three \<open>ValueError\<close>s the source raises itself are
  kept apart by their message; the two raised by the constructor are the construction errors.
\<close>

datatype error =
    SerialLengthError
  | ProductLengthError
  | ReadSizeError int nat
  | NegativeCountError
  | ByteRangeError
  | IndexError
  | UnicodeEncodeError
  | CalledProcessError int
  | FileNotFoundError pystr
  | LaunchError
  | EOFError

fun is_ConstructionError :: "error \<Rightarrow> bool" where
  "is_ConstructionError SerialLengthError = True"
| "is_ConstructionError ProductLengthError = True"
| "is_ConstructionError _ = False"

text \<open>Sequencing of statements that may raise: the first exception ends the computation.\<close>

definition ebind :: "error + 'a \<Rightarrow> ('a \<Rightarrow> error + 'b) \<Rightarrow> error + 'b" where
  "ebind m f = (case m of Inl e \<Rightarrow> Inl e | Inr x \<Rightarrow> f x)"

text \<open>
  The object \<open>eepCH341\<close>. The attribute \<open>self.size\<close> is named \<open>size_str\<close> after the
  constructor's parameter, and \<open>self.product\<close> is named \<open>product_str\<close>.
\<close>

record eepCH341 =
  size_str :: pystr
  size_bytes :: int
  majorVersion :: int
  minorVersion :: int
  serial :: pystr
  product_str :: pystr
  MODE :: int
  CFG :: int
  VID :: "int \<times> int"
  PID :: "int \<times> int"

text \<open>\<open>eepCH341.__init__\<close>, with every parameter explicit.\<close>

definition init ::
  "int \<Rightarrow> int \<Rightarrow> pystr \<Rightarrow> pystr \<Rightarrow> pystr \<Rightarrow> int \<Rightarrow> int \<Rightarrow> int \<Rightarrow> int \<times> int \<Rightarrow> int \<times> int
    \<Rightarrow> error + eepCH341" where
  "init majorVersion' minorVersion' serial' product' size_str' size_bytes' MODE' CFG' VID' PID' =
     (if length serial' = 8 then
        (if length product' < 95 then
           Inr \<lparr> size_str = size_str', size_bytes = size_bytes',
                 majorVersion = majorVersion', minorVersion = minorVersion',
                 serial = serial', product_str = product',
                 MODE = MODE', CFG = CFG', VID = VID', PID = PID' \<rparr>
         else Inl ProductLengthError)
      else Inl SerialLengthError)"

text \<open>The constructor called with the default values of its keyword parameters.\<close>

definition init_default :: "int \<Rightarrow> int \<Rightarrow> pystr \<Rightarrow> pystr \<Rightarrow> error + eepCH341" where
  "init_default majorVersion' minorVersion' serial' product' =
     init majorVersion' minorVersion' serial' product'
       (ords ''24c02'') 256 0x12 0xCC (0x1A, 0x86) (0x55, 0x12)"

section \<open>The image builder\<close>

text \<open>\<open>bytearray(n)\<close>: \<open>n\<close> zero bytes, \<open>ValueError\<close> for a negative count.\<close>

definition bytearray :: "int \<Rightarrow> error + int list" where
  "bytearray n = (if n < 0 then Inl NegativeCountError else Inr (replicate (nat n) 0))"

text \<open>
  \<open>rom[i] = v\<close> for a constant index \<open>i \<ge> 0\<close>: the value must be in \<open>range(0, 256)\<close>
  and the index inside the buffer. CPython checks the value first.
\<close>

definition setitem :: "int list \<Rightarrow> nat \<Rightarrow> int \<Rightarrow> error + int list" where
  "setitem rom i v =
     (if \<not> (0 \<le> v \<and> v < 256) then Inl ByteRangeError
      else if length rom \<le> i then Inl IndexError
      else Inr (rom[i := v]))"

text \<open>\<open>s.encode('ascii')\<close>: one byte per code point, an error for a code point above 127.\<close>

definition encode_ascii :: "pystr \<Rightarrow> error + int list" where
  "encode_ascii s =
     (if list_all (\<lambda>c. c < 128) s then Inr (map int s) else Inl UnicodeEncodeError)"

text \<open>
  \<open>rom[a:b] = bs\<close> for constant bounds \<open>0 \<le> a\<close>, \<open>0 \<le> b\<close>: both bounds are clipped to
  the length of the buffer, an empty or reversed range is the empty range at the start
  bound, and the range is replaced by \<open>bs\<close> whatever the length of \<open>bs\<close>: the buffer
  grows or shrinks by the difference.
\<close>

definition setslice :: "int list \<Rightarrow> nat \<Rightarrow> nat \<Rightarrow> int list \<Rightarrow> int list" where
  "setslice rom a b bs =
     (let start = min a (length rom);
          stop = max start (min b (length rom))
      in take start rom @ bs @ drop stop rom)"

text \<open>\<open>eepCH341.bytes\<close>, statement by statement.\<close>

definition bytes :: "eepCH341 \<Rightarrow> error + int list" where
  "bytes self =
     ebind (bytearray (size_bytes self - 1)) (\<lambda>rom.
     ebind (setitem rom 0 0x53) (\<lambda>rom.
     ebind (setitem rom 1 (MODE self)) (\<lambda>rom.
     ebind (setitem rom 2 (CFG self)) (\<lambda>rom.
     ebind (setitem rom 3 0x00) (\<lambda>rom.
     ebind (setitem rom 4 (snd (VID self))) (\<lambda>rom.
     ebind (setitem rom 5 (fst (VID self))) (\<lambda>rom.
     ebind (setitem rom 6 (snd (PID self))) (\<lambda>rom.
     ebind (setitem rom 7 (fst (PID self))) (\<lambda>rom.
     ebind (setitem rom 8 (minorVersion self)) (\<lambda>rom.
     ebind (setitem rom 9 (majorVersion self)) (\<lambda>rom.
     ebind (encode_ascii (serial self)) (\<lambda>serial_bytes.
     let rom = setslice rom 16 23 serial_bytes in
     ebind (encode_ascii (product_str self)) (\<lambda>product_bytes.
     let rom = setslice rom 32 (32 + length product_bytes) product_bytes in
     Inr rom)))))))))))))"

subsection \<open>The image builder on the object store\<close>

text \<open>
  The same method with the objects it works on made explicit. The state holds the
  attributes of \<open>self\<close> and every \<open>bytearray\<close> object allocated so far; a reference to
  a \<open>bytearray\<close> is its index, and an allocation appends a new object. The method reads
  attributes of \<open>self\<close>, allocates \<open>rom\<close>, \<open>serial_bytes\<close> and \<open>product_bytes\<close>, writes
  to \<open>rom\<close> through its reference, and returns that reference. A statement that raises
  leaves the state as it is at that point. The references used are the ones the
  allocations of the same call returned.
\<close>

record pystate =
  this :: eepCH341
  arrays :: "int list list"

type_synonym 'a py = "pystate \<Rightarrow> (error + 'a) \<times> pystate"

definition pybind :: "'a py \<Rightarrow> ('a \<Rightarrow> 'b py) \<Rightarrow> 'b py" where
  "pybind m f st = (case m st of (Inl e, st') \<Rightarrow> (Inl e, st') | (Inr x, st') \<Rightarrow> f x st')"

text \<open>\<open>self.field\<close>.\<close>

definition getattr :: "(eepCH341 \<Rightarrow> 'a) \<Rightarrow> 'a py" where
  "getattr field st = (Inr (field (this st)), st)"

text \<open>\<open>bytearray(...)\<close>: the argument is evaluated first and may raise.\<close>

definition new_bytearray :: "error + int list \<Rightarrow> nat py" where
  "new_bytearray content st =
     (case content of
        Inl e \<Rightarrow> (Inl e, st)
      | Inr bs \<Rightarrow> (Inr (length (arrays st)), st\<lparr>arrays := arrays st @ [bs]\<rparr>))"

text \<open>\<open>rom[i] = v\<close> on the object \<open>ref\<close> refers to.\<close>

definition store_item :: "nat \<Rightarrow> nat \<Rightarrow> int \<Rightarrow> unit py" where
  "store_item ref i v st =
     (case setitem (arrays st ! ref) i v of
        Inl e \<Rightarrow> (Inl e, st)
      | Inr bs \<Rightarrow> (Inr (), st\<lparr>arrays := (arrays st)[ref := bs]\<rparr>))"

text \<open>\<open>len(b)\<close> of a \<open>bytearray\<close>.\<close>

definition len :: "nat \<Rightarrow> nat py" where
  "len ref st = (Inr (length (arrays st ! ref)), st)"

text \<open>\<open>rom[a:b] = other\<close>: the bytes of the object \<open>src\<close> are copied into \<open>ref\<close>.\<close>

definition store_slice :: "nat \<Rightarrow> nat \<Rightarrow> nat \<Rightarrow> nat \<Rightarrow> unit py" where
  "store_slice ref a b src st =
     (Inr (), st\<lparr>arrays := (arrays st)[ref := setslice (arrays st ! ref) a b (arrays st ! src)]\<rparr>)"

text \<open>\<open>eepCH341.bytes\<close> as a sequence of these operations.\<close>

definition bytes_method :: "nat py" where
  "bytes_method =
     pybind (pybind (getattr size_bytes) (\<lambda>n. new_bytearray (bytearray (n - 1)))) (\<lambda>rom.
     pybind (store_item rom 0 0x53) (\<lambda>_.
     pybind (pybind (getattr MODE) (store_item rom 1)) (\<lambda>_.
     pybind (pybind (getattr CFG) (store_item rom 2)) (\<lambda>_.
     pybind (store_item rom 3 0x00) (\<lambda>_.
     pybind (pybind (getattr VID) (\<lambda>v. store_item rom 4 (snd v))) (\<lambda>_.
     pybind (pybind (getattr VID) (\<lambda>v. store_item rom 5 (fst v))) (\<lambda>_.
     pybind (pybind (getattr PID) (\<lambda>v. store_item rom 6 (snd v))) (\<lambda>_.
     pybind (pybind (getattr PID) (\<lambda>v. store_item rom 7 (fst v))) (\<lambda>_.
     pybind (pybind (getattr minorVersion) (store_item rom 8)) (\<lambda>_.
     pybind (pybind (getattr majorVersion) (store_item rom 9)) (\<lambda>_.
     pybind (pybind (getattr serial) (\<lambda>s. new_bytearray (encode_ascii s))) (\<lambda>serial_bytes.
     pybind (store_slice rom 16 23 serial_bytes) (\<lambda>_.
     pybind (pybind (getattr product_str) (\<lambda>s. new_bytearray (encode_ascii s))) (\<lambda>product_bytes.
     pybind (pybind (len product_bytes) (\<lambda>k. store_slice rom 32 (32 + k) product_bytes)) (\<lambda>_.
     Pair (Inr rom))))))))))))))))"

section \<open>The outside world: files, the external programmer, the operator\<close>

text \<open>
  Everything outside the process that the script touches: the files of the working
  directory (a map from path to content), the state of the attached hardware as the
  external programmer sees it, and a chronological log of what the script did.
  An exception leaves the world as it was when it was raised, so every operation
  returns the world next to its result or error.
\<close>

datatype event =
    Prompt int
  | Removed pystr
  | Created pystr
  | Wrote pystr "int list"
  | Loaded pystr
  | Ran "pystr list" int
  | PrintFlashed pystr int
  | PrintLine pystr
  | PrintContents "int list"

record 'dev world =
  dev :: 'dev
  files :: "pystr \<rightharpoonup> int list"
  log :: "event list"

text \<open>
  The external programmer is a black box: given its argument vector, the hardware state
  and the files, it either cannot be started (\<open>None\<close>) or exits with a status, leaving
  a new hardware state and new files. Nothing is assumed about what it does.
\<close>

type_synonym 'dev tool =
  "pystr list \<Rightarrow> 'dev \<Rightarrow> (pystr \<rightharpoonup> int list) \<Rightarrow> (int \<times> 'dev \<times> (pystr \<rightharpoonup> int list)) option"

type_synonym ('dev, 'a) io = "'dev world \<Rightarrow> (error + 'a) \<times> 'dev world"

definition iobind :: "('dev, 'a) io \<Rightarrow> ('a \<Rightarrow> ('dev, 'b) io) \<Rightarrow> ('dev, 'b) io" where
  "iobind m f w = (case m w of (Inl e, w') \<Rightarrow> (Inl e, w') | (Inr x, w') \<Rightarrow> f x w')"

definition ioreturn :: "'a \<Rightarrow> ('dev, 'a) io" where
  "ioreturn x w = (Inr x, w)"

definition ioraise :: "error \<Rightarrow> ('dev, 'a) io" where
  "ioraise e w = (Inl e, w)"

definition lift :: "error + 'a \<Rightarrow> ('dev, 'a) io" where
  "lift r w = (r, w)"

definition emit :: "event \<Rightarrow> ('dev, unit) io" where
  "emit ev w = (Inr (), w\<lparr>log := log w @ [ev]\<rparr>)"

text \<open>\<open>os.path.exists(p)\<close>.\<close>

definition path_exists :: "pystr \<Rightarrow> ('dev, bool) io" where
  "path_exists p w = (Inr (files w p \<noteq> None), w)"

text \<open>\<open>os.remove(p)\<close>: \<open>FileNotFoundError\<close> when there is no such file.\<close>

definition os_remove :: "pystr \<Rightarrow> ('dev, unit) io" where
  "os_remove p w =
     (case files w p of
        None \<Rightarrow> (Inl (FileNotFoundError p), w)
      | Some _ \<Rightarrow> (Inr (), w\<lparr>files := (files w)(p := None), log := log w @ [Removed p]\<rparr>))"

text \<open>\<open>open(p, "wb")\<close>: the file exists and is empty from here on.\<close>

definition open_wb :: "pystr \<Rightarrow> ('dev, unit) io" where
  "open_wb p w = (Inr (), w\<lparr>files := (files w)(p \<mapsto> []), log := log w @ [Created p]\<rparr>)"

text \<open>\<open>f.write(data)\<close> on the file just opened, and the end of the \<open>with\<close> block.\<close>

definition file_write :: "pystr \<Rightarrow> int list \<Rightarrow> ('dev, unit) io" where
  "file_write p data w =
     (Inr (), w\<lparr>files := (files w)(p \<mapsto> data), log := log w @ [Wrote p data]\<rparr>)"

text \<open>\<open>with open(p, "rb") as f: data = f.read()\<close>.\<close>

definition file_read :: "pystr \<Rightarrow> ('dev, int list) io" where
  "file_read p w =
     (case files w p of
        None \<Rightarrow> (Inl (FileNotFoundError p), w)
      | Some data \<Rightarrow> (Inr data, w\<lparr>log := log w @ [Loaded p]\<rparr>))"

text \<open>
  \<open>subprocess.run(args, check=True)\<close>: blocks until the programmer exits and raises
  \<open>CalledProcessError\<close> on a non-zero exit status.
\<close>

definition subprocess_run :: "'dev tool \<Rightarrow> pystr list \<Rightarrow> ('dev, int) io" where
  "subprocess_run tool args w =
     (case tool args (dev w) (files w) of
        None \<Rightarrow> (Inl LaunchError, w)
      | Some (rc, dev', files') \<Rightarrow>
          (if rc \<noteq> 0 then Inl (CalledProcessError rc) else Inr rc,
           w\<lparr>dev := dev', files := files', log := log w @ [Ran args rc]\<rparr>))"

section \<open>Device operations\<close>

definition read_eeprom_bin :: pystr where
  "read_eeprom_bin = ords ''read_eeprom.bin''"

definition write_eeprom_bin :: pystr where
  "write_eeprom_bin = ords ''write_eeprom.bin''"

definition verify_eeprom_bin :: pystr where
  "verify_eeprom_bin = ords ''verify_eeprom.bin''"

definition erase_args :: "eepCH341 \<Rightarrow> pystr \<Rightarrow> pystr list" where
  "erase_args self bin_ch341eeprom =
     [bin_ch341eeprom, ords ''--erase'', ords ''--size'', size_str self]"

definition read_args :: "eepCH341 \<Rightarrow> pystr \<Rightarrow> pystr list" where
  "read_args self bin_ch341eeprom =
     [bin_ch341eeprom, ords ''--read'', read_eeprom_bin, ords ''--size'', size_str self]"

definition flash_args :: "eepCH341 \<Rightarrow> pystr \<Rightarrow> pystr list" where
  "flash_args self bin_ch341eeprom =
     [bin_ch341eeprom, ords ''--write'', write_eeprom_bin, ords ''--size'', size_str self]"

definition verify_args :: "eepCH341 \<Rightarrow> pystr \<Rightarrow> pystr list" where
  "verify_args self bin_ch341eeprom =
     [bin_ch341eeprom, ords ''--verify'', verify_eeprom_bin, ords ''--size'', size_str self]"

text \<open>\<open>eepCH341.erase\<close>.\<close>

definition erase :: "'dev tool \<Rightarrow> eepCH341 \<Rightarrow> pystr \<Rightarrow> ('dev, int) io" where
  "erase tool self bin_ch341eeprom = subprocess_run tool (erase_args self bin_ch341eeprom)"

text \<open>\<open>eepCH341.read\<close>.\<close>

definition read :: "'dev tool \<Rightarrow> eepCH341 \<Rightarrow> pystr \<Rightarrow> ('dev, int list) io" where
  "read tool self bin_ch341eeprom =
     iobind (path_exists read_eeprom_bin) (\<lambda>ex.
     iobind (if ex then os_remove read_eeprom_bin else ioreturn ()) (\<lambda>_.
     iobind (subprocess_run tool (read_args self bin_ch341eeprom)) (\<lambda>r.
     iobind (file_read read_eeprom_bin) (\<lambda>data.
     iobind (os_remove read_eeprom_bin) (\<lambda>_.
     ioreturn data)))))"

text \<open>
  \<open>eepCH341.flash\<close>. The file is opened, and so created empty, before \<open>self.bytes()\<close>
  is evaluated.
\<close>

definition flash :: "'dev tool \<Rightarrow> eepCH341 \<Rightarrow> pystr \<Rightarrow> ('dev, int) io" where
  "flash tool self bin_ch341eeprom =
     iobind (path_exists write_eeprom_bin) (\<lambda>ex.
     iobind (if ex then os_remove write_eeprom_bin else ioreturn ()) (\<lambda>_.
     iobind (open_wb write_eeprom_bin) (\<lambda>_.
     iobind (lift (bytes self)) (\<lambda>rom.
     iobind (file_write write_eeprom_bin rom) (\<lambda>_.
     iobind (subprocess_run tool (flash_args self bin_ch341eeprom)) (\<lambda>r.
     iobind (os_remove write_eeprom_bin) (\<lambda>_.
     ioreturn r)))))))"

text \<open>\<open>eepCH341.verify\<close>.\<close>

definition verify :: "'dev tool \<Rightarrow> eepCH341 \<Rightarrow> pystr \<Rightarrow> ('dev, int) io" where
  "verify tool self bin_ch341eeprom =
     iobind (path_exists verify_eeprom_bin) (\<lambda>ex.
     iobind (if ex then os_remove verify_eeprom_bin else ioreturn ()) (\<lambda>_.
     iobind (open_wb verify_eeprom_bin) (\<lambda>_.
     iobind (lift (bytes self)) (\<lambda>rom.
     iobind (file_write verify_eeprom_bin rom) (\<lambda>_.
     iobind (subprocess_run tool (verify_args self bin_ch341eeprom)) (\<lambda>r.
     iobind (os_remove verify_eeprom_bin) (\<lambda>_.
     ioreturn r)))))))"

section \<open>The batch programming loop\<close>

text \<open>The parsed command line.\<close>

record args =
  arg_serial :: int
  arg_product :: pystr
  arg_majorVersion :: int
  arg_minorVersion :: int
  arg_bin :: pystr

text \<open>\<open>str(n)\<close> for an integer: decimal digits, a minus sign for a negative number.\<close>

fun digits :: "nat \<Rightarrow> pystr" where
  "digits n = (if n < 10 then [48 + n] else digits (n div 10) @ [48 + n mod 10])"

declare digits.simps [simp del]

definition str_int :: "int \<Rightarrow> pystr" where
  "str_int i = (if i < 0 then 45 # digits (nat (- i)) else digits (nat i))"

text \<open>
  The body of \<open>while True\<close> after \<open>input\<close> has returned, up to but not including
  \<open>cur_serial += 1\<close>.
\<close>

definition iteration :: "'dev tool \<Rightarrow> args \<Rightarrow> int \<Rightarrow> ('dev, unit) io" where
  "iteration tool a cur_serial =
     iobind (lift (init_default (arg_majorVersion a) (arg_minorVersion a)
                     (str_int cur_serial) (arg_product a))) (\<lambda>eeprom.
     iobind (read tool eeprom (arg_bin a)) (\<lambda>read_init.
     iobind (if int (length read_init) \<noteq> size_bytes eeprom
             then ioraise (ReadSizeError (size_bytes eeprom) (length read_init))
             else ioreturn ()) (\<lambda>_.
     iobind (erase tool eeprom (arg_bin a)) (\<lambda>_.
     iobind (flash tool eeprom (arg_bin a)) (\<lambda>_.
     iobind (verify tool eeprom (arg_bin a)) (\<lambda>_.
     iobind (emit (PrintFlashed (arg_product a) cur_serial)) (\<lambda>_.
     iobind (read tool eeprom (arg_bin a)) (\<lambda>read_again.
     iobind (emit (PrintLine (ords ''New EEPROM Contents:''))) (\<lambda>_.
     iobind (emit (PrintContents (take 127 read_again))) (\<lambda>_.
     emit (PrintLine [])))))))))))"

text \<open>
  The loop. The operator's confirmations are the lines available on standard input:
  each \<open>input\<close> prints the prompt and consumes one line, and raises \<open>EOFError\<close> when
  there is none left. The loop has no exit of its own, so it always ends with an
  exception; the result is that exception, the value of \<open>cur_serial\<close> when it was
  raised, and the world then.
\<close>

fun batch_loop ::
  "'dev tool \<Rightarrow> args \<Rightarrow> pystr list \<Rightarrow> int \<Rightarrow> 'dev world \<Rightarrow> error \<times> int \<times> 'dev world" where
  "batch_loop tool a [] cur_serial w = (EOFError, cur_serial, snd (emit (Prompt cur_serial) w))"
| "batch_loop tool a (line # stdin) cur_serial w =
     (case iteration tool a cur_serial (snd (emit (Prompt cur_serial) w)) of
        (Inl e, w') \<Rightarrow> (e, cur_serial, w')
      | (Inr _, w') \<Rightarrow> batch_loop tool a stdin (cur_serial + 1) w')"

definition main :: "'dev tool \<Rightarrow> args \<Rightarrow> pystr list \<Rightarrow> 'dev world \<Rightarrow> error \<times> int \<times> 'dev world" where
  "main tool a stdin w = batch_loop tool a stdin (arg_serial a) w"

section \<open>Specification vocabulary\<close>

text \<open>
  The predicates and the closed form of the image that the theorems are stated with.
  A header value fits when it is in \<open>range(0, 256)\<close>; a string is ASCII when every code
  point is below 128.
\<close>

definition is_byte :: "int \<Rightarrow> bool" where
  "is_byte v = (0 \<le> v \<and> v < 256)"

definition ascii :: "pystr \<Rightarrow> bool" where
  "ascii s = list_all (\<lambda>c. c < 128) s"

definition header_ok :: "eepCH341 \<Rightarrow> bool" where
  "header_ok self \<longleftrightarrow> is_byte (MODE self) \<and> is_byte (CFG self)
     \<and> is_byte (fst (VID self)) \<and> is_byte (snd (VID self))
     \<and> is_byte (fst (PID self)) \<and> is_byte (snd (PID self))
     \<and> is_byte (minorVersion self) \<and> is_byte (majorVersion self)"

text \<open>
  The ten header bytes in buffer order, and the whole image for a buffer with room for
  the record: header, six zero bytes, the serial, eight zero bytes, the product, zero
  bytes up to \<open>size_bytes\<close>.
\<close>

definition header :: "eepCH341 \<Rightarrow> int list" where
  "header self = [0x53, MODE self, CFG self, 0x00, snd (VID self), fst (VID self),
                  snd (PID self), fst (PID self), minorVersion self, majorVersion self]"

definition layout :: "eepCH341 \<Rightarrow> int list" where
  "layout self =
     header self @ replicate 6 0 @ map int (serial self) @ replicate 8 0
       @ map int (product_str self)
       @ replicate (nat (size_bytes self) - (32 + length (product_str self))) 0"

text \<open>
  The programmer invocations recorded in a stretch of the log, in order, each with its
  exit status.
\<close>

fun invocations :: "event list \<Rightarrow> (pystr list \<times> int) list" where
  "invocations [] = []"
| "invocations (Ran args rc # evs) = (args, rc) # invocations evs"
| "invocations (_ # evs) = invocations evs"

text \<open>
  An operation is tracked when it only appends to the log and every non-zero exit
  status it records is the \<open>CalledProcessError\<close> it ends with.
\<close>

definition tracked :: "('dev, 'a) io \<Rightarrow> bool" where
  "tracked m \<longleftrightarrow>
     (\<forall>w. \<exists>evs. log (snd (m w)) = log w @ evs
        \<and> (\<forall>args rc. Ran args rc \<in> set evs \<longrightarrow> rc \<noteq> 0 \<longrightarrow>
              fst (m w) = Inl (CalledProcessError rc)))"

text \<open>
  The world after the guard \<open>if os.path.exists(p): os.remove(p)\<close>.
\<close>

definition cleaned :: "pystr \<Rightarrow> 'dev world \<Rightarrow> 'dev world" where
  "cleaned p w =
     (if files w p \<noteq> None
      then w\<lparr>files := (files w)(p := None), log := log w @ [Removed p]\<rparr> else w)"

section \<open>Concrete descriptors, programmers and worlds\<close>

text \<open>
  The descriptor of the script's defaults (serial 13374204, product MESHTOAD, version
  1.2, a 256-byte 24c02) and the same record for a 16-byte 24c00.
\<close>

definition example_eeprom :: eepCH341 where
  "example_eeprom =
     \<lparr> size_str = ords ''24c02'', size_bytes = 256, majorVersion = 1, minorVersion = 2,
       serial = ords ''13374204'', product_str = ords ''MESHTOAD'',
       MODE = 0x12, CFG = 0xCC, VID = (0x1A, 0x86), PID = (0x55, 0x12) \<rparr>"

definition small_eeprom :: eepCH341 where
  "small_eeprom =
     \<lparr> size_str = ords ''24c00'', size_bytes = 16, majorVersion = 1, minorVersion = 2,
       serial = ords ''13374204'', product_str = ords ''MESHTOAD'',
       MODE = 0x12, CFG = 0xCC, VID = (0x1A, 0x86), PID = (0x55, 0x12) \<rparr>"

text \<open>
  The default descriptor with a product that has the code point 214 in it, as
  \<open>--product\<close> can give it.
\<close>

definition umlaut_eeprom :: eepCH341 where
  "umlaut_eeprom =
     \<lparr> size_str = ords ''24c02'', size_bytes = 256, majorVersion = 1, minorVersion = 2,
       serial = ords ''13374204'', product_str = [77, 69, 83, 72, 84, 214, 65, 68],
       MODE = 0x12, CFG = 0xCC, VID = (0x1A, 0x86), PID = (0x55, 0x12) \<rparr>"

text \<open>
  The default descriptor with major version 300, as \<open>--major-version 300\<close> gives it,
  and a product with the code point 214 in it.
\<close>

definition overflow_eeprom :: eepCH341 where
  "overflow_eeprom =
     \<lparr> size_str = ords ''24c02'', size_bytes = 256, majorVersion = 300, minorVersion = 2,
       serial = ords ''13374204'', product_str = [77, 69, 83, 72, 84, 214, 65, 68],
       MODE = 0x12, CFG = 0xCC, VID = (0x1A, 0x86), PID = (0x55, 0x12) \<rparr>"

text \<open>
  A programmer stand-in: \<open>--read\<close> writes \<open>read_len\<close> zero bytes to the named file and
  succeeds, \<open>--erase\<close> exits with \<open>erase_status\<close>, everything else succeeds. The command
  line of the script's defaults, a world with no files, and a world where all three
  temporary files were left behind.
\<close>

definition stub_tool :: "nat \<Rightarrow> int \<Rightarrow> unit tool" where
  "stub_tool read_len erase_status args d fs =
     (if args ! 1 = ords ''--read'' then Some (0, d, fs(args ! 2 \<mapsto> replicate read_len 0))
      else if args ! 1 = ords ''--erase'' then Some (erase_status, d, fs)
      else Some (0, d, fs))"

definition example_args :: args where
  "example_args =
     \<lparr> arg_serial = 13374204, arg_product = ords ''MESHTOAD'',
       arg_majorVersion = 1, arg_minorVersion = 2,
       arg_bin = ords ''/home/vidplace7/Documents/GitHub/ch341eeprom/ch341eeprom'' \<rparr>"

definition empty_world :: "unit world" where
  "empty_world = \<lparr> dev = (), files = Map.empty, log = [] \<rparr>"

definition stale_world :: "unit world" where
  "stale_world =
     \<lparr> dev = (),
       files = [read_eeprom_bin \<mapsto> [1, 2, 3], write_eeprom_bin \<mapsto> [4, 5],
                verify_eeprom_bin \<mapsto> [6]],
       log = [] \<rparr>"

section \<open>The image builder: auxiliary facts\<close>

lemma ebind_Inr_iff: "ebind m f = Inr y \<longleftrightarrow> (\<exists>x. m = Inr x \<and> f x = Inr y)"
  by (cases m) (simp_all add: ebind_def)

lemma setitem_Inr_iff:
  "setitem rom i v = Inr rom' \<longleftrightarrow> 0 \<le> v \<and> v < 256 \<and> i < length rom \<and> rom' = rom[i := v]"
  by (auto simp: setitem_def)

lemma replicate10: "replicate 10 (0::int) = [0,0,0,0,0,0,0,0,0,0]"
  by (simp add: numeral_eq_Suc)

lemma bytearray_Inr_iff: "bytearray n = Inr rom \<longleftrightarrow> 0 \<le> n \<and> rom = replicate (nat n) 0"
  by (auto simp: bytearray_def)

lemma encode_ascii_Inr_iff: "encode_ascii s = Inr bs \<longleftrightarrow> ascii s \<and> bs = map int s"
  by (auto simp: encode_ascii_def ascii_def)

text \<open>
  With a buffer of at least ten bytes and header values that fit, the ten header writes
  succeed and leave the header followed by zeros.
\<close>

lemma bytes_header:
  assumes "11 \<le> size_bytes self" "header_ok self"
  shows "bytes self =
     ebind (encode_ascii (serial self)) (\<lambda>serial_bytes.
     let rom = setslice (header self @ replicate (nat (size_bytes self) - 11) 0) 16 23 serial_bytes in
     ebind (encode_ascii (product_str self)) (\<lambda>product_bytes.
     let rom = setslice rom 32 (32 + length product_bytes) product_bytes in
     Inr rom))"
proof -
  have "replicate (nat (size_bytes self - 1)) (0::int)
        = [0,0,0,0,0,0,0,0,0,0] @ replicate (nat (size_bytes self) - 11) 0"
    using assms(1) by (simp add: replicate10 [symmetric] replicate_add [symmetric] nat_diff_distrib)
  then show ?thesis
    using assms unfolding bytes_def bytearray_def header_ok_def is_byte_def
    by (simp add: ebind_def setitem_def header_def)
qed

text \<open>
  Conversely, \<open>bytes\<close> returns only if the buffer has ten bytes, the header values fit
  and both strings are ASCII.
\<close>

lemma bytes_needs:
  assumes "bytes self = Inr rom"
  shows "11 \<le> size_bytes self \<and> header_ok self \<and> ascii (serial self) \<and> ascii (product_str self)"
proof -
  from assms obtain r0 r1 r2 r3 r4 r5 r6 r7 r8 r9 r10 where
    r0: "bytearray (size_bytes self - 1) = Inr r0" and
    s0: "setitem r0 0 0x53 = Inr r1" and
    s1: "setitem r1 1 (MODE self) = Inr r2" and
    s2: "setitem r2 2 (CFG self) = Inr r3" and
    s3: "setitem r3 3 0x00 = Inr r4" and
    s4: "setitem r4 4 (snd (VID self)) = Inr r5" and
    s5: "setitem r5 5 (fst (VID self)) = Inr r6" and
    s6: "setitem r6 6 (snd (PID self)) = Inr r7" and
    s7: "setitem r7 7 (fst (PID self)) = Inr r8" and
    s8: "setitem r8 8 (minorVersion self) = Inr r9" and
    s9: "setitem r9 9 (majorVersion self) = Inr r10" and
    e1: "\<exists>sb. encode_ascii (serial self) = Inr sb" and
    e2: "\<exists>pb. encode_ascii (product_str self) = Inr pb"
    unfolding bytes_def ebind_Inr_iff Let_def by blast
  have len: "length r9 = length r0"
    using s0 s1 s2 s3 s4 s5 s6 s7 s8 by (simp add: setitem_Inr_iff)
  have "9 < length r0" using s9 len by (simp add: setitem_Inr_iff)
  then have "11 \<le> size_bytes self" using r0 by (auto simp: bytearray_Inr_iff)
  moreover have "header_ok self"
    using s1 s2 s4 s5 s6 s7 s8 s9 by (simp add: setitem_Inr_iff header_ok_def is_byte_def)
  moreover have "ascii (serial self)" "ascii (product_str self)"
    using e1 e2 by (auto simp: encode_ascii_Inr_iff)
  ultimately show ?thesis by simp
qed

text \<open>
  The two slice assignments. The serial's eight bytes replace the seven bytes 16 to 22,
  so everything from offset 23 on moves up by one and the buffer grows by one byte.
\<close>

lemma setslice_serial:
  assumes "length h = 10" "length sb = 8" "21 \<le> m"
  shows "setslice (h @ replicate m 0) 16 23 sb = h @ replicate 6 0 @ sb @ replicate (m - 13) 0"
proof -
  have "replicate m (0::int) = replicate 6 0 @ replicate 7 0 @ replicate (m - 13) 0"
    using assms(3) by (simp add: replicate_add [symmetric])
  then show ?thesis using assms by (simp add: setslice_def)
qed

lemma setslice_product:
  assumes "length xs = 24"
  shows "setslice (xs @ replicate 8 0 @ replicate m 0) 32 (32 + length pb) pb
         = xs @ replicate 8 0 @ pb @ replicate (m - length pb) 0"
  using assms by (simp add: setslice_def min_def max_def)

lemma bytes_layout:
  assumes "32 \<le> size_bytes self" "header_ok self" "length (serial self) = 8"
    "ascii (serial self)" "ascii (product_str self)"
  shows "bytes self = Inr (layout self)"
proof -
  let ?m = "nat (size_bytes self) - 11"
  have m: "21 \<le> ?m" using assms(1) by simp
  have split: "replicate (?m - 13) (0::int) = replicate 8 0 @ replicate (nat (size_bytes self) - 32) 0"
    using assms(1) by (simp add: replicate_add [symmetric])
  have "setslice (header self @ replicate ?m 0) 16 23 (map int (serial self))
        = (header self @ replicate 6 0 @ map int (serial self)) @ replicate 8 0 @ replicate (nat (size_bytes self) - 32) 0"
    using setslice_serial [of "header self" "map int (serial self)" ?m] m assms(3) split
    by (simp add: header_def)
  moreover have "length (header self @ replicate 6 0 @ map int (serial self)) = 24"
    using assms(3) by (simp add: header_def)
  ultimately show ?thesis
    using assms setslice_product [of "header self @ replicate 6 0 @ map int (serial self)" "nat (size_bytes self) - 32" "map int (product_str self)"]
    by (simp add: bytes_header encode_ascii_def ascii_def ebind_def layout_def)
qed

lemma layout_length:
  "length (serial self) = 8 \<Longrightarrow>
   length (layout self) = max (nat (size_bytes self)) (32 + length (product_str self))"
  by (simp add: layout_def header_def)

lemma bytes_returns_layout:
  assumes "length (serial self) = 8" "32 \<le> size_bytes self" "bytes self = Inr rom"
  shows "rom = layout self"
  using assms bytes_needs [OF assms(3)] bytes_layout [of self] by simp

lemma ords_13374204: "ords ''13374204'' = [49, 51, 51, 55, 52, 50, 48, 52]"
  by (simp add: ords_def)

lemma ords_MESHTOAD: "ords ''MESHTOAD'' = [77, 69, 83, 72, 84, 79, 65, 68]"
  by (simp add: ords_def)

lemma example_eeprom_init:
  "init_default 1 2 (ords ''13374204'') (ords ''MESHTOAD'') = Inr example_eeprom"
  by (simp add: init_default_def init_def example_eeprom_def ords_13374204 ords_MESHTOAD)

lemma example_eeprom_ok:
  "header_ok example_eeprom" "ascii (serial example_eeprom)" "ascii (product_str example_eeprom)"
  "length (serial example_eeprom) = 8" "length (product_str example_eeprom) = 8"
  "size_bytes example_eeprom = 256"
  by (simp_all add: example_eeprom_def header_ok_def is_byte_def ascii_def ords_13374204 ords_MESHTOAD)

lemma example_eeprom_bytes: "bytes example_eeprom = Inr (layout example_eeprom)"
  by (rule bytes_layout) (simp_all add: example_eeprom_ok)

lemma small_eeprom_bytes:
  "bytes small_eeprom =
     Inr [0x53, 0x12, 0xCC, 0, 0x86, 0x1A, 0x12, 0x55, 2, 1, 0, 0, 0, 0, 0,
          49, 51, 51, 55, 52, 50, 48, 52, 77, 69, 83, 72, 84, 79, 65, 68]"
  by (simp add: bytes_header small_eeprom_def header_ok_def is_byte_def header_def
      encode_ascii_def ebind_def setslice_def ords_13374204 ords_MESHTOAD numeral_eq_Suc)

text \<open>
  The method on the object store: it never assigns to an attribute of \<open>self\<close>, it
  leaves every object that existed before the call as it was, it raises what \<open>bytes\<close>
  raises, and when it returns, the new object it refers to holds the buffer that
  \<open>bytes\<close> computes.
\<close>

lemma pybind_getattr [simp]: "pybind (getattr field) f st = f (field (this st)) st"
  by (simp add: pybind_def getattr_def)

lemma pybind_len [simp]: "pybind (len ref) f st = f (length (arrays st ! ref)) st"
  by (simp add: pybind_def len_def)

lemma pybind_new [simp]:
  "pybind (new_bytearray c) f st =
     (case c of Inl e \<Rightarrow> (Inl e, st)
      | Inr bs \<Rightarrow> f (length (arrays st)) (st\<lparr>arrays := arrays st @ [bs]\<rparr>))"
  by (simp add: pybind_def new_bytearray_def split: sum.splits)

lemma pybind_store_item [simp]:
  "pybind (store_item ref i v) f st =
     (case setitem (arrays st ! ref) i v of Inl e \<Rightarrow> (Inl e, st)
      | Inr bs \<Rightarrow> f () (st\<lparr>arrays := (arrays st)[ref := bs]\<rparr>))"
  by (simp add: pybind_def store_item_def split: sum.splits)

lemma pybind_store_slice [simp]:
  "pybind (store_slice ref a b src) f st =
     f () (st\<lparr>arrays := (arrays st)[ref := setslice (arrays st ! ref) a b (arrays st ! src)]\<rparr>)"
  by (simp add: pybind_def store_slice_def)

lemma pybind_assoc: "pybind (pybind m f) g = pybind m (\<lambda>x. pybind (f x) g)"
  by (rule ext) (simp add: pybind_def split: prod.splits sum.splits)

lemma bytes_method_this: "this (snd (bytes_method st)) = this st"
  unfolding bytes_method_def pybind_assoc
  by (simp split: sum.splits)

lemma bytes_method_frame:
  "take (length (arrays st)) (arrays (snd (bytes_method st))) = arrays st"
  unfolding bytes_method_def pybind_assoc
  by (simp split: sum.splits)

lemma bytes_method_result:
  "fst (bytes_method st) = map_sum id (\<lambda>_. length (arrays st)) (bytes (this st))"
  unfolding bytes_method_def bytes_def pybind_assoc
  by (simp add: ebind_def Let_def split: sum.splits)

lemma bytes_method_buffer:
  assumes "bytes (this st) = Inr rom"
  shows "arrays (snd (bytes_method st))
     = arrays st @ [rom, map int (serial (this st)), map int (product_str (this st))]"
proof -
  from assms obtain r0 r1 r2 r3 r4 r5 r6 r7 r8 r9 r10 sb pb where
    r0: "bytearray (size_bytes (this st) - 1) = Inr r0" and
    s0: "setitem r0 0 0x53 = Inr r1" and
    s1: "setitem r1 1 (MODE (this st)) = Inr r2" and
    s2: "setitem r2 2 (CFG (this st)) = Inr r3" and
    s3: "setitem r3 3 0x00 = Inr r4" and
    s4: "setitem r4 4 (snd (VID (this st))) = Inr r5" and
    s5: "setitem r5 5 (fst (VID (this st))) = Inr r6" and
    s6: "setitem r6 6 (snd (PID (this st))) = Inr r7" and
    s7: "setitem r7 7 (fst (PID (this st))) = Inr r8" and
    s8: "setitem r8 8 (minorVersion (this st)) = Inr r9" and
    s9: "setitem r9 9 (majorVersion (this st)) = Inr r10" and
    e1: "encode_ascii (serial (this st)) = Inr sb" and
    e2: "encode_ascii (product_str (this st)) = Inr pb" and
    rom: "rom = setslice (setslice r10 16 23 sb) 32 (32 + length pb) pb"
    unfolding bytes_def ebind_Inr_iff Let_def by auto
  have sb: "sb = map int (serial (this st))" and pb: "pb = map int (product_str (this st))"
    using e1 e2 by (auto simp: encode_ascii_def split: if_splits)
  show ?thesis
    unfolding bytes_method_def pybind_assoc
    using r0 s0 s1 s2 s3 s4 s5 s6 s7 s8 s9 e1 e2
    by (simp add: rom sb pb nth_append)
qed

lemma bytes_returns_iff:
  "(\<exists>rom. bytes self = Inr rom) \<longleftrightarrow>
     11 \<le> size_bytes self \<and> header_ok self \<and> ascii (serial self) \<and> ascii (product_str self)"
proof
  assume "\<exists>rom. bytes self = Inr rom"
  then show "11 \<le> size_bytes self \<and> header_ok self \<and> ascii (serial self) \<and> ascii (product_str self)"
    using bytes_needs by blast
next
  assume "11 \<le> size_bytes self \<and> header_ok self \<and> ascii (serial self) \<and> ascii (product_str self)"
  then show "\<exists>rom. bytes self = Inr rom"
    by (simp add: bytes_header encode_ascii_def ascii_def ebind_def Let_def)
qed

lemma bytes_method_length:
  "bytes (this st) = Inr rom \<Longrightarrow> length (arrays (snd (bytes_method st))) = length (arrays st) + 3"
  by (simp add: bytes_method_buffer)

section \<open>The image builder: properties\<close>

text \<open>
  C1 (amended). For every descriptor with a serial of length 8 whose \<open>size_bytes\<close> is at
  least 32 plus the length of the product, every buffer that \<open>bytes\<close> returns has length
  \<open>size_bytes\<close> (not \<open>size_bytes - 1\<close>): the buffer is allocated with \<open>size_bytes - 1\<close>
  bytes and grows by one when the 8-byte serial is assigned to the 7-byte slice
  \<open>16:23\<close>. On these descriptors \<open>bytes\<close> returns exactly when the header values are
  bytes and both strings are ASCII. For \<open>size_bytes = 256\<close> the buffer has length 256.
\<close>

theorem bytes_length:
  assumes "length (serial self) = 8"
    and "32 + int (length (product_str self)) \<le> size_bytes self"
  shows "(\<forall>rom. bytes self = Inr rom \<longrightarrow> int (length rom) = size_bytes self)
       \<and> ((\<exists>rom. bytes self = Inr rom)
            \<longleftrightarrow> header_ok self \<and> ascii (serial self) \<and> ascii (product_str self))"
proof -
  have big: "32 \<le> size_bytes self" using assms(2) by simp
  have len: "int (length (layout self)) = size_bytes self"
    using assms by (simp add: layout_length)
  have "\<forall>rom. bytes self = Inr rom \<longrightarrow> int (length rom) = size_bytes self"
    using bytes_returns_layout [OF assms(1) big] len by blast
  moreover have "(\<exists>rom. bytes self = Inr rom)
      \<longleftrightarrow> header_ok self \<and> ascii (serial self) \<and> ascii (product_str self)"
    using bytes_needs [of self] bytes_layout [OF big _ assms(1)] by blast
  ultimately show ?thesis by simp
qed

text \<open>
  The default descriptor: the image has 256 bytes.
\<close>

theorem bytes_length_witness:
  "length (serial example_eeprom) = 8
   \<and> 32 + int (length (product_str example_eeprom)) \<le> size_bytes example_eeprom
   \<and> size_bytes example_eeprom = 256
   \<and> \<not> isl (bytes example_eeprom)
   \<and> length (projr (bytes example_eeprom)) = 256"
  using bytes_length [of example_eeprom] example_eeprom_bytes
  by (simp add: example_eeprom_ok)

text \<open>
  C1 as stated fails on the default descriptor: \<open>size_bytes - 1\<close> is 255, the image has
  256 bytes.
\<close>

theorem bytes_length_counterexample:
  "init_default 1 2 (ords ''13374204'') (ords ''MESHTOAD'') = Inr example_eeprom
   \<and> length (serial example_eeprom) = 8 \<and> length (product_str example_eeprom) < 95
   \<and> size_bytes example_eeprom = 256
   \<and> \<not> isl (bytes example_eeprom)
   \<and> length (projr (bytes example_eeprom)) = 256
   \<and> int (length (projr (bytes example_eeprom))) \<noteq> size_bytes example_eeprom - 1"
  by (simp add: example_eeprom_init example_eeprom_ok example_eeprom_bytes layout_def header_def)

text \<open>
  C2 (amended). Two calls of \<open>bytes\<close>, one after the other on the same descriptor,
  in any state of the object store: neither call changes a field of the descriptor or
  an object that existed before. The first call returns a buffer exactly when
  \<open>size_bytes\<close> is at least 11, the header values are bytes and both strings are ASCII;
  then the second call returns a buffer too, a different object with the same bytes,
  the first buffer is still what it was, and its bytes are the value of \<open>bytes\<close> on
  the fields. When the first call raises, the second raises the same exception.
\<close>

theorem bytes_twice:
  assumes "bytes_method st = (r1, st1)" and "bytes_method st1 = (r2, st2)"
  shows "this st1 = this st \<and> this st2 = this st
    \<and> take (length (arrays st)) (arrays st2) = arrays st
    \<and> ((\<exists>b1. r1 = Inr b1) \<longleftrightarrow>
          11 \<le> size_bytes (this st) \<and> header_ok (this st)
          \<and> ascii (serial (this st)) \<and> ascii (product_str (this st)))
    \<and> (\<forall>b1. r1 = Inr b1 \<longrightarrow>
          (\<exists>b2. r2 = Inr b2 \<and> b1 \<noteq> b2
             \<and> b1 < length (arrays st2) \<and> b2 < length (arrays st2)
             \<and> arrays st2 ! b2 = arrays st2 ! b1
             \<and> arrays st2 ! b1 = arrays st1 ! b1
             \<and> bytes (this st) = Inr (arrays st1 ! b1)))
    \<and> (\<forall>e. r1 = Inl e \<longrightarrow> r2 = Inl e)"
proof -
  have t1: "this st1 = this st" using bytes_method_this [of st] assms(1) by simp
  have t2: "this st2 = this st" using bytes_method_this [of st1] assms(2) t1 by simp
  have f1: "take (length (arrays st)) (arrays st1) = arrays st"
    using bytes_method_frame [of st] assms(1) by simp
  have f2: "take (length (arrays st1)) (arrays st2) = arrays st1"
    using bytes_method_frame [of st1] assms(2) by simp
  have res1: "r1 = map_sum id (\<lambda>_. length (arrays st)) (bytes (this st))"
    using bytes_method_result [of st] assms(1) by simp
  have res2: "r2 = map_sum id (\<lambda>_. length (arrays st1)) (bytes (this st))"
    using bytes_method_result [of st1] assms(2) t1 by simp
  have le: "length (arrays st) \<le> length (arrays st1)"
    using f1 by (metis length_take min.cobounded1)
  have frame: "take (length (arrays st)) (arrays st2) = arrays st"
  proof -
    have "take (length (arrays st)) (arrays st2)
        = take (length (arrays st)) (take (length (arrays st1)) (arrays st2))"
      using le by (simp add: min_def)
    then show ?thesis using f1 f2 by simp
  qed
  have iff: "(\<exists>b1. r1 = Inr b1) \<longleftrightarrow>
          11 \<le> size_bytes (this st) \<and> header_ok (this st)
          \<and> ascii (serial (this st)) \<and> ascii (product_str (this st))"
    unfolding res1 bytes_returns_iff [symmetric] by (cases "bytes (this st)") auto
  have same: "\<exists>b2. r2 = Inr b2 \<and> b1 \<noteq> b2
             \<and> b1 < length (arrays st2) \<and> b2 < length (arrays st2)
             \<and> arrays st2 ! b2 = arrays st2 ! b1
             \<and> arrays st2 ! b1 = arrays st1 ! b1
             \<and> bytes (this st) = Inr (arrays st1 ! b1)" if "r1 = Inr b1" for b1
  proof -
    from that res1 obtain rom where rom: "bytes (this st) = Inr rom"
      and b1: "b1 = length (arrays st)"
      by (cases "bytes (this st)") auto
    have a1: "arrays st1 = arrays st @ [rom, map int (serial (this st)), map int (product_str (this st))]"
      using bytes_method_buffer [OF rom] assms(1) by simp
    have a2: "arrays st2 = arrays st1 @ [rom, map int (serial (this st)), map int (product_str (this st))]"
      using bytes_method_buffer [of st1 rom] rom t1 assms(2) by simp
    have r2: "r2 = Inr (length (arrays st1))" using res2 rom by simp
    show ?thesis
      using r2 b1 rom by (simp add: a2 a1 nth_append)
  qed
  have err: "r2 = Inl e" if "r1 = Inl e" for e
    using that res1 res2 by (cases "bytes (this st)") auto
  show ?thesis using t1 t2 frame iff same err by blast
qed

text \<open>
  The default descriptor in an empty store: the calls return the objects 0 and 3, with
  the same bytes, and the descriptor is unchanged.
\<close>

theorem bytes_twice_witness:
  "fst (bytes_method \<lparr>this = example_eeprom, arrays = []\<rparr>) = Inr 0
   \<and> fst (bytes_method (snd (bytes_method \<lparr>this = example_eeprom, arrays = []\<rparr>))) = Inr 3
   \<and> arrays (snd (bytes_method (snd (bytes_method \<lparr>this = example_eeprom, arrays = []\<rparr>)))) ! 3
       = arrays (snd (bytes_method (snd (bytes_method \<lparr>this = example_eeprom, arrays = []\<rparr>)))) ! 0
   \<and> this (snd (bytes_method (snd (bytes_method \<lparr>this = example_eeprom, arrays = []\<rparr>))))
       = example_eeprom"
proof -
  let ?st = "\<lparr>this = example_eeprom, arrays = []\<rparr>"
  let ?st1 = "snd (bytes_method ?st)"
  let ?st2 = "snd (bytes_method ?st1)"
  have r1: "fst (bytes_method ?st) = Inr 0"
    by (simp add: bytes_method_result example_eeprom_bytes)
  have l1: "length (arrays ?st1) = 3"
    using bytes_method_length [of ?st] example_eeprom_bytes by simp
  have r2: "fst (bytes_method ?st1) = Inr 3"
    by (simp add: bytes_method_result bytes_method_this example_eeprom_bytes l1)
  have c1: "bytes_method ?st = (Inr 0, ?st1)" using r1 by (simp add: prod_eq_iff)
  have c2: "bytes_method ?st1 = (Inr 3, ?st2)" using r2 by (simp add: prod_eq_iff)
  from bytes_twice [OF c1 c2]
  have "this ?st2 = this ?st" and
    "\<forall>b1. (Inr 0 :: error + nat) = Inr b1 \<longrightarrow>
          (\<exists>b2. (Inr 3 :: error + nat) = Inr b2 \<and> arrays ?st2 ! b2 = arrays ?st2 ! b1)"
    by blast+
  then show ?thesis using r1 r2 by simp
qed

text \<open>
  C2 as stated fails on a descriptor with valid lengths and a product that is not
  ASCII: both calls raise the encoding error, and no buffer is returned.
\<close>

theorem bytes_twice_counterexample:
  "init_default 1 2 (ords ''13374204'') [77, 69, 83, 72, 84, 214, 65, 68] = Inr umlaut_eeprom
   \<and> length (serial umlaut_eeprom) = 8 \<and> length (product_str umlaut_eeprom) < 95
   \<and> bytes umlaut_eeprom = Inl UnicodeEncodeError
   \<and> fst (bytes_method \<lparr>this = umlaut_eeprom, arrays = []\<rparr>) = Inl UnicodeEncodeError
   \<and> fst (bytes_method (snd (bytes_method \<lparr>this = umlaut_eeprom, arrays = []\<rparr>)))
       = Inl UnicodeEncodeError"
proof -
  have ok: "11 \<le> size_bytes umlaut_eeprom" "header_ok umlaut_eeprom"
    by (simp_all add: umlaut_eeprom_def header_ok_def is_byte_def)
  have b: "bytes umlaut_eeprom = Inl UnicodeEncodeError"
    by (simp add: bytes_header [OF ok] encode_ascii_def ebind_def Let_def)
      (simp add: umlaut_eeprom_def ords_13374204)
  then show ?thesis
    by (simp add: bytes_method_result bytes_method_this)
      (simp add: init_default_def init_def umlaut_eeprom_def ords_13374204)
qed

text \<open>
  C3 (amended). For every descriptor with a serial of length 8 and \<open>size_bytes\<close> at
  least 32, a buffer returned by \<open>bytes\<close> has byte 0 = 0x53, byte 1 = mode, byte 2 =
  config, byte 3 = 0, byte 4 = second element of the vendor-ID pair, byte 5 = first
  element, byte 6 = second element of the product-ID pair, byte 7 = first element,
  byte 8 = minor version, byte 9 = major version, and bytes 10 to 15 and 24 to 31 zero.
\<close>

theorem bytes_header_fields:
  assumes "length (serial self) = 8" "32 \<le> size_bytes self" "bytes self = Inr rom"
  shows "32 \<le> length rom
    \<and> rom ! 0 = 0x53 \<and> rom ! 1 = MODE self \<and> rom ! 2 = CFG self \<and> rom ! 3 = 0x00
    \<and> rom ! 4 = snd (VID self) \<and> rom ! 5 = fst (VID self)
    \<and> rom ! 6 = snd (PID self) \<and> rom ! 7 = fst (PID self)
    \<and> rom ! 8 = minorVersion self \<and> rom ! 9 = majorVersion self
    \<and> take 6 (drop 10 rom) = replicate 6 0
    \<and> take 8 (drop 24 rom) = replicate 8 0"
proof -
  have rom: "rom = layout self" using assms by (rule bytes_returns_layout)
  show ?thesis
    unfolding rom using assms(1,2)
    by (simp add: layout_def header_def)
qed

text \<open>
  The default descriptor: vendor ID (0x1A, 0x86) gives byte 4 = 0x86 and byte 5 = 0x1A,
  version 1.2 gives byte 8 = 2 and byte 9 = 1.
\<close>

theorem bytes_header_fields_witness:
  "length (serial example_eeprom) = 8 \<and> 32 \<le> size_bytes example_eeprom
   \<and> VID example_eeprom = (0x1A, 0x86)
   \<and> \<not> isl (bytes example_eeprom)
   \<and> projr (bytes example_eeprom) ! 0 = 0x53
   \<and> projr (bytes example_eeprom) ! 4 = 0x86 \<and> projr (bytes example_eeprom) ! 5 = 0x1A
   \<and> projr (bytes example_eeprom) ! 8 = 2 \<and> projr (bytes example_eeprom) ! 9 = 1
   \<and> take 6 (drop 10 (projr (bytes example_eeprom))) = [0, 0, 0, 0, 0, 0]
   \<and> take 8 (drop 24 (projr (bytes example_eeprom))) = [0, 0, 0, 0, 0, 0, 0, 0]"
  using bytes_header_fields [of example_eeprom "layout example_eeprom"] example_eeprom_bytes
  by (simp add: example_eeprom_ok) (simp add: example_eeprom_def numeral_eq_Suc)

text \<open>
  C3 as stated fails for a 16-byte part: the buffer starts with 15 bytes, the slice
  \<open>16:23\<close> is clipped to the empty range at 15, and the serial is inserted there, so
  byte 15 is the serial's first character.
\<close>

theorem bytes_header_fields_counterexample:
  "init 1 2 (ords ''13374204'') (ords ''MESHTOAD'') (ords ''24c00'') 16 0x12 0xCC
        (0x1A, 0x86) (0x55, 0x12) = Inr small_eeprom
   \<and> bytes small_eeprom =
        Inr [0x53, 0x12, 0xCC, 0, 0x86, 0x1A, 0x12, 0x55, 2, 1, 0, 0, 0, 0, 0,
             49, 51, 51, 55, 52, 50, 48, 52, 77, 69, 83, 72, 84, 79, 65, 68]
   \<and> projr (bytes small_eeprom) ! 15 = 49
   \<and> projr (bytes small_eeprom) ! 15 \<noteq> 0"
  by (simp add: small_eeprom_bytes)
    (simp add: init_def small_eeprom_def ords_13374204 ords_MESHTOAD)

text \<open>
  C4 (amended). For every descriptor with a serial of length 8 and \<open>size_bytes\<close> at
  least 32, in a buffer returned by \<open>bytes\<close> the eight bytes of the serial are at
  offsets 16 to 23, the bytes of the product start at offset 32 and run for the
  product's length, and every byte after the product is zero.
\<close>

theorem bytes_strings:
  assumes "length (serial self) = 8" "32 \<le> size_bytes self" "bytes self = Inr rom"
  shows "take 8 (drop 16 rom) = map int (serial self)
    \<and> take (length (product_str self)) (drop 32 rom) = map int (product_str self)
    \<and> drop (32 + length (product_str self)) rom
        = replicate (nat (size_bytes self) - (32 + length (product_str self))) 0"
proof -
  have rom: "rom = layout self" using assms by (rule bytes_returns_layout)
  have h: "length (header self) = 10" by (simp add: header_def)
  have "take 8 (drop 16 (layout self)) = map int (serial self)"
    using assms(1) h by (simp add: layout_def)
  moreover have "take (length (product_str self)) (drop 32 (layout self))
      = map int (product_str self)"
    using assms(1) h by (simp add: layout_def)
  moreover have "drop (32 + length (product_str self)) (layout self)
      = replicate (nat (size_bytes self) - (32 + length (product_str self))) 0"
    using assms(1) h by (simp add: layout_def)
  ultimately show ?thesis unfolding rom by simp
qed

text \<open>
  The default descriptor: bytes 16 to 23 are "13374204", bytes 32 to 39 are "MESHTOAD",
  the remaining 216 bytes are zero.
\<close>

theorem bytes_strings_witness:
  "length (serial example_eeprom) = 8 \<and> 32 \<le> size_bytes example_eeprom
   \<and> \<not> isl (bytes example_eeprom)
   \<and> take 8 (drop 16 (projr (bytes example_eeprom))) = map int (ords ''13374204'')
   \<and> take 8 (drop 32 (projr (bytes example_eeprom))) = map int (ords ''MESHTOAD'')
   \<and> drop 40 (projr (bytes example_eeprom)) = replicate 216 0"
  using bytes_strings [of example_eeprom "layout example_eeprom"] example_eeprom_bytes
  by (simp add: example_eeprom_ok) (simp add: example_eeprom_def)

text \<open>
  C4 as stated fails for a 16-byte part: the serial is at offsets 15 to 22 and the
  product follows at offset 23; there is no offset 32.
\<close>

theorem bytes_strings_counterexample:
  "length (serial small_eeprom) = 8 \<and> length (product_str small_eeprom) < 95
   \<and> \<not> isl (bytes small_eeprom)
   \<and> take 8 (drop 16 (projr (bytes small_eeprom))) \<noteq> map int (serial small_eeprom)
   \<and> take 8 (drop 15 (projr (bytes small_eeprom))) = map int (serial small_eeprom)
   \<and> drop 23 (projr (bytes small_eeprom)) = map int (product_str small_eeprom)
   \<and> drop 32 (projr (bytes small_eeprom)) = []"
  by (simp add: small_eeprom_bytes) (simp add: small_eeprom_def ords_13374204 ords_MESHTOAD)

section \<open>Construction: properties\<close>

text \<open>
  C5. Construction raises exactly when the length invariant is violated. A serial whose
  length is not 8 raises the serial error; a product of length 95 or more raises a
  construction error; a serial of length 8 with a product shorter than 95 gives the
  descriptor with every field as passed.
\<close>

theorem init_length_check:
  "(length s \<noteq> 8 \<longrightarrow> init mj mn s p sz sb md cf vid pid = Inl SerialLengthError)
   \<and> (95 \<le> length p \<longrightarrow>
        isl (init mj mn s p sz sb md cf vid pid)
        \<and> is_ConstructionError (projl (init mj mn s p sz sb md cf vid pid)))
   \<and> (length s = 8 \<and> length p < 95 \<longrightarrow>
        init mj mn s p sz sb md cf vid pid =
          Inr \<lparr> size_str = sz, size_bytes = sb, majorVersion = mj, minorVersion = mn,
                serial = s, product_str = p, MODE = md, CFG = cf, VID = vid, PID = pid \<rparr>)
   \<and> (isl (init mj mn s p sz sb md cf vid pid) \<longleftrightarrow> length s \<noteq> 8 \<or> 95 \<le> length p)"
  by (simp add: init_def)

text \<open>
  A 7-character serial, a 95-character product, and a 94-character product.
\<close>

theorem init_length_check_witness:
  "init 1 2 (ords ''1234567'') (ords ''MESHTOAD'') (ords ''24c02'') 256 0x12 0xCC (0x1A, 0x86) (0x55, 0x12)
     = Inl SerialLengthError
   \<and> is_ConstructionError (projl (init 1 2 (ords ''13374204'') (replicate 95 77) (ords ''24c02'') 256 0x12 0xCC (0x1A, 0x86) (0x55, 0x12)))
   \<and> init 1 2 (ords ''13374204'') (replicate 94 77) (ords ''24c02'') 256 0x12 0xCC (0x1A, 0x86) (0x55, 0x12)
     = Inr \<lparr> size_str = ords ''24c02'', size_bytes = 256, majorVersion = 1, minorVersion = 2,
             serial = ords ''13374204'', product_str = replicate 94 77,
             MODE = 0x12, CFG = 0xCC, VID = (0x1A, 0x86), PID = (0x55, 0x12) \<rparr>"
proof -
  have s7: "length (ords ''1234567'') \<noteq> 8" by (simp add: ords_def)
  have s8: "length (ords ''13374204'') = 8" by (simp add: ords_def)
  have p95: "95 \<le> length (replicate 95 (77::nat))" by simp
  have p94: "length (replicate 94 (77::nat)) < 95" by simp
  note t = init_length_check [where mj = 1 and mn = 2 and sz = "ords ''24c02''" and sb = 256
      and md = "0x12" and cf = "0xCC" and vid = "(0x1A, 0x86)" and pid = "(0x55, 0x12)"]
  from t [where s = "ords ''1234567''" and p = "ords ''MESHTOAD''"] s7
  have a: "init 1 2 (ords ''1234567'') (ords ''MESHTOAD'') (ords ''24c02'') 256 0x12 0xCC
      (0x1A, 0x86) (0x55, 0x12) = Inl SerialLengthError" by blast
  from t [where s = "ords ''13374204''" and p = "replicate 95 77"] p95
  have b: "is_ConstructionError (projl (init 1 2 (ords ''13374204'') (replicate 95 77)
      (ords ''24c02'') 256 0x12 0xCC (0x1A, 0x86) (0x55, 0x12)))" by blast
  from t [where s = "ords ''13374204''" and p = "replicate 94 77"] s8 p94
  have c: "init 1 2 (ords ''13374204'') (replicate 94 77) (ords ''24c02'') 256 0x12 0xCC (0x1A, 0x86) (0x55, 0x12)
     = Inr \<lparr> size_str = ords ''24c02'', size_bytes = 256, majorVersion = 1, minorVersion = 2,
             serial = ords ''13374204'', product_str = replicate 94 77,
             MODE = 0x12, CFG = 0xCC, VID = (0x1A, 0x86), PID = (0x55, 0x12) \<rparr>" by blast
  from a b c show ?thesis by blast
qed

text \<open>
  C9. Construction looks at the length of the serial only. Every serial of length 8 is
  accepted (with a product shorter than 95) and stored as it is, and whether
  construction raises is the same for any two serials of length 8.
\<close>

theorem init_ignores_serial_content:
  assumes "length s = 8"
  shows "(length p < 95 \<longrightarrow>
            (\<exists>self. init mj mn s p sz sb md cf vid pid = Inr self \<and> serial self = s))
       \<and> (\<forall>s'. length s' = 8 \<longrightarrow>
            isl (init mj mn s' p sz sb md cf vid pid) = isl (init mj mn s p sz sb md cf vid pid))"
  using assms by (simp add: init_def)

text \<open>
  A serial of eight characters that are not all digits.
\<close>

theorem init_ignores_serial_content_witness:
  "length (ords ''SN-12 x!'') = 8 \<and> \<not> list_all (\<lambda>c. 48 \<le> c \<and> c \<le> 57) (ords ''SN-12 x!'')
   \<and> (\<exists>self. init_default 1 2 (ords ''SN-12 x!'') (ords ''MESHTOAD'') = Inr self
          \<and> serial self = ords ''SN-12 x!'')"
proof -
  have l: "length (ords ''SN-12 x!'') = 8" by (simp add: ords_def)
  have n: "\<not> list_all (\<lambda>c. 48 \<le> c \<and> c \<le> 57) (ords ''SN-12 x!'')" by (simp add: ords_def)
  have p: "length (ords ''MESHTOAD'') < 95" by (simp add: ords_def)
  from init_ignores_serial_content [OF l, where p = "ords ''MESHTOAD''" and mj = 1 and mn = 2
      and sz = "ords ''24c02''" and sb = 256
      and md = "0x12" and cf = "0xCC" and vid = "(0x1A, 0x86)" and pid = "(0x55, 0x12)"] p
  have "\<exists>self. init_default 1 2 (ords ''SN-12 x!'') (ords ''MESHTOAD'') = Inr self
          \<and> serial self = ords ''SN-12 x!''"
    unfolding init_default_def by blast
  with l n show ?thesis by blast
qed

text \<open>
  C10 (amended). \<open>bytes\<close> returns a buffer only for a descriptor whose serial and product are
  ASCII. Strings of valid lengths with a code point above 127 pass construction, and
  \<open>bytes\<close> then raises instead of returning; when the ten header writes succeed
  (\<open>size_bytes\<close> at least 11, header values in range) the exception is the encoding
  error.
\<close>

theorem bytes_needs_ascii:
  "(\<forall>rom. bytes self = Inr rom \<longrightarrow> ascii (serial self) \<and> ascii (product_str self))
   \<and> (length s = 8 \<and> length p < 95 \<and> (\<not> ascii s \<or> \<not> ascii p) \<longrightarrow>
        (\<exists>d. init mj mn s p sz sb md cf vid pid = Inr d \<and> isl (bytes d)
              \<and> (11 \<le> sb \<and> header_ok d \<longrightarrow> bytes d = Inl UnicodeEncodeError)))"
proof -
  have a: "\<forall>rom. bytes self = Inr rom \<longrightarrow> ascii (serial self) \<and> ascii (product_str self)"
    using bytes_needs by blast
  have b: "bytes d = Inl UnicodeEncodeError"
    if "11 \<le> size_bytes d" "header_ok d" "\<not> ascii (serial d) \<or> \<not> ascii (product_str d)" for d
    using that by (auto simp: bytes_header encode_ascii_def ebind_def ascii_def Let_def)
  have c: "isl (bytes d)" if "\<not> ascii (serial d) \<or> \<not> ascii (product_str d)" for d
    using that bytes_needs [of d] by (cases "bytes d") auto
  show ?thesis
    using a b c by (auto simp: init_def)
qed

text \<open>
  The serial "1337420" followed by the digit U+0661: eight characters, accepted by the
  constructor with its defaults, rejected by the encoder.
\<close>

theorem bytes_needs_ascii_witness:
  "length [49, 51, 51, 55, 52, 50, 48, 1633 :: nat] = 8
   \<and> \<not> ascii [49, 51, 51, 55, 52, 50, 48, 1633]
   \<and> (\<exists>d. init_default 1 2 [49, 51, 51, 55, 52, 50, 48, 1633] (ords ''MESHTOAD'') = Inr d
          \<and> bytes d = Inl UnicodeEncodeError)"
proof -
  have l: "length [49, 51, 51, 55, 52, 50, 48, 1633 :: nat] = 8" by simp
  have n: "\<not> ascii [49, 51, 51, 55, 52, 50, 48, 1633]" by (simp add: ascii_def)
  have p: "length (ords ''MESHTOAD'') < 95" by (simp add: ords_def)
  from bytes_needs_ascii [where s = "[49, 51, 51, 55, 52, 50, 48, 1633]"
      and p = "ords ''MESHTOAD''" and mj = 1 and mn = 2
      and sz = "ords ''24c02''" and sb = 256
      and md = "0x12" and cf = "0xCC" and vid = "(0x1A, 0x86)" and pid = "(0x55, 0x12)"] l n p
  obtain d where d: "init 1 2 [49, 51, 51, 55, 52, 50, 48, 1633] (ords ''MESHTOAD'')
        (ords ''24c02'') 256 0x12 0xCC (0x1A, 0x86) (0x55, 0x12) = Inr d"
    and e: "11 \<le> (256::int) \<and> header_ok d \<longrightarrow> bytes d = Inl UnicodeEncodeError"
    by blast
  from d have "header_ok d" by (auto simp: init_def header_ok_def is_byte_def split: if_splits)
  with d e l n show ?thesis unfolding init_default_def by auto
qed

text \<open>
  C10 as stated fails when a header write raises first: with major version 300 and a
  product that is not ASCII, construction succeeds and \<open>bytes\<close> raises the byte-range
  error of \<open>rom[9] = self.majorVersion\<close>, not the encoding error.
\<close>

theorem bytes_needs_ascii_counterexample:
  "init_default 300 2 (ords ''13374204'') [77, 69, 83, 72, 84, 214, 65, 68] = Inr overflow_eeprom
   \<and> \<not> ascii (product_str overflow_eeprom)
   \<and> bytes overflow_eeprom = Inl ByteRangeError
   \<and> bytes overflow_eeprom \<noteq> Inl UnicodeEncodeError"
proof -
  have "bytes overflow_eeprom = Inl ByteRangeError"
    by (simp add: bytes_def bytearray_def setitem_def ebind_def overflow_eeprom_def)
  then show ?thesis
    by (simp add: init_default_def init_def overflow_eeprom_def ords_13374204 ascii_def)
qed

section \<open>Device operations and the loop: auxiliary facts\<close>

lemma iobind_Inr_iff:
  "iobind m f w = (Inr y, w'') \<longleftrightarrow> (\<exists>x w'. m w = (Inr x, w') \<and> f x w' = (Inr y, w''))"
  by (cases "m w") (auto simp: iobind_def split: sum.splits)

lemma iobind_Inl: "m w = (Inl e, w') \<Longrightarrow> iobind m f w = (Inl e, w')"
  by (simp add: iobind_def)

lemma iobind_Inr: "m w = (Inr x, w') \<Longrightarrow> iobind m f w = f x w'"
  by (simp add: iobind_def)

lemma invocations_append: "invocations (xs @ ys) = invocations xs @ invocations ys"
  by (induction xs rule: invocations.induct) simp_all

text \<open>
  Every operation of the script is tracked: the primitives are, and sequencing keeps it.
\<close>

lemma trackedI:
  assumes "\<And>w. \<exists>evs. log (snd (m w)) = log w @ evs
        \<and> (\<forall>args rc. Ran args rc \<in> set evs \<longrightarrow> rc \<noteq> 0 \<longrightarrow>
              fst (m w) = Inl (CalledProcessError rc))"
  shows "tracked m"
  using assms unfolding tracked_def by blast

lemma tracked_iobind:
  assumes m: "tracked m" and f: "\<And>x. tracked (f x)"
  shows "tracked (iobind m f)"
proof (rule trackedI)
  fix w
  obtain r w1 where mw: "m w = (r, w1)" by (cases "m w")
  from m obtain evs1 where e1: "log w1 = log w @ evs1"
    and z1: "\<And>args rc. Ran args rc \<in> set evs1 \<Longrightarrow> rc \<noteq> 0 \<Longrightarrow> r = Inl (CalledProcessError rc)"
    unfolding tracked_def using mw by (metis fst_conv snd_conv)
  show "\<exists>evs. log (snd (iobind m f w)) = log w @ evs
        \<and> (\<forall>args rc. Ran args rc \<in> set evs \<longrightarrow> rc \<noteq> 0 \<longrightarrow>
              fst (iobind m f w) = Inl (CalledProcessError rc))"
  proof (cases r)
    case (Inl e)
    then have "iobind m f w = (Inl e, w1)" using mw by (simp add: iobind_Inl)
    then show ?thesis using e1 z1 Inl by auto
  next
    case (Inr x)
    then have b: "iobind m f w = f x w1" using mw by (simp add: iobind_Inr)
    from f [of x] obtain evs2 where e2: "log (snd (f x w1)) = log w1 @ evs2"
      and z2: "\<And>args rc. Ran args rc \<in> set evs2 \<Longrightarrow> rc \<noteq> 0
          \<Longrightarrow> fst (f x w1) = Inl (CalledProcessError rc)"
      unfolding tracked_def by blast
    have none: "Ran args rc \<in> set evs1 \<Longrightarrow> rc = 0" for args rc
      using z1 [of args rc] Inr by auto
    have "log (snd (iobind m f w)) = log w @ (evs1 @ evs2)"
      using b e1 e2 by simp
    moreover have "\<forall>args rc. Ran args rc \<in> set (evs1 @ evs2) \<longrightarrow> rc \<noteq> 0 \<longrightarrow>
              fst (iobind m f w) = Inl (CalledProcessError rc)"
      using none z2 b by auto
    ultimately show ?thesis by blast
  qed
qed

lemma tracked_simple [simp]:
  "tracked (ioreturn x)" "tracked (ioraise e)" "tracked (lift r)"
  "tracked (emit (Prompt c))" "tracked (emit (PrintFlashed s c))"
  "tracked (emit (PrintLine s))" "tracked (emit (PrintContents bs))"
  "tracked (path_exists p)" "tracked (os_remove p)" "tracked (open_wb p)"
  "tracked (file_write p data)" "tracked (file_read p)"
  by (auto simp: tracked_def ioreturn_def ioraise_def lift_def emit_def path_exists_def
      os_remove_def open_wb_def file_write_def file_read_def split: option.splits)

lemma tracked_subprocess_run [simp]: "tracked (subprocess_run tool args)"
  by (auto simp: tracked_def subprocess_run_def split: option.splits)

lemma tracked_if [simp]: "tracked m \<Longrightarrow> tracked n \<Longrightarrow> tracked (if b then m else n)"
  by simp

lemma tracked_erase [simp]: "tracked (erase tool self b)"
  by (simp add: erase_def)

lemma tracked_read [simp]: "tracked (read tool self b)"
  unfolding read_def by (intro tracked_iobind tracked_if) simp_all

lemma tracked_flash [simp]: "tracked (flash tool self b)"
  unfolding flash_def by (intro tracked_iobind tracked_if) simp_all

lemma tracked_verify [simp]: "tracked (verify tool self b)"
  unfolding verify_def by (intro tracked_iobind tracked_if) simp_all

lemma tracked_iteration: "tracked (iteration tool a cur)"
  unfolding iteration_def by (intro tracked_iobind tracked_if) simp_all

lemma tracked_log:
  "tracked m \<Longrightarrow> \<exists>evs. log (snd (m w)) = log w @ evs"
  unfolding tracked_def by blast

text \<open>
  What a successful run of each operation has done.
\<close>

lemma preclean:
  "iobind (path_exists p) (\<lambda>ex. iobind (if ex then os_remove p else ioreturn ()) k) w
   = k () (cleaned p w)"
  by (auto simp: iobind_def path_exists_def os_remove_def ioreturn_def cleaned_def)

lemma cleaned_simps [simp]:
  "log (cleaned p w) = log w @ (if files w p \<noteq> None then [Removed p] else [])"
  "files (cleaned p w) p = None"
  by (simp_all add: cleaned_def)

lemma os_remove_Inr:
  "os_remove p w = (Inr u, w') \<Longrightarrow> files w' p = None \<and> log w' = log w @ [Removed p]"
  by (auto simp: os_remove_def split: option.splits)

lemma subprocess_run_Inr:
  "subprocess_run tool args w = (Inr r, w') \<Longrightarrow> r = 0 \<and> log w' = log w @ [Ran args 0]"
  by (auto simp: subprocess_run_def split: option.splits if_splits)

lemma file_read_Inr:
  "file_read p w = (Inr data, w') \<Longrightarrow> log w' = log w @ [Loaded p] \<and> files w p = Some data"
  by (auto simp: file_read_def split: option.splits)

lemma erase_Inr:
  "erase tool self b w = (Inr r, w') \<Longrightarrow> log w' = log w @ [Ran (erase_args self b) 0]"
  unfolding erase_def by (drule subprocess_run_Inr) simp

lemma read_Inr:
  assumes "read tool self b w = (Inr data, w')"
  shows "files w' read_eeprom_bin = None
    \<and> log w' = log (cleaned read_eeprom_bin w)
        @ [Ran (read_args self b) 0, Loaded read_eeprom_bin, Removed read_eeprom_bin]"
proof -
  from assms obtain r w1 w2 u where
    run: "subprocess_run tool (read_args self b) (cleaned read_eeprom_bin w) = (Inr r, w1)" and
    rd: "file_read read_eeprom_bin w1 = (Inr data, w2)" and
    rm: "os_remove read_eeprom_bin w2 = (Inr u, w')"
    unfolding read_def preclean by (auto simp: iobind_Inr_iff ioreturn_def)
  show ?thesis
    using subprocess_run_Inr [OF run] file_read_Inr [OF rd] os_remove_Inr [OF rm] by simp
qed

lemma flash_Inr:
  assumes "flash tool self b w = (Inr r, w')"
  shows "files w' write_eeprom_bin = None
    \<and> (\<exists>rom. bytes self = Inr rom
         \<and> log w' = log (cleaned write_eeprom_bin w)
             @ [Created write_eeprom_bin, Wrote write_eeprom_bin rom,
                Ran (flash_args self b) 0, Removed write_eeprom_bin])"
proof -
  from assms obtain rom w1 u where
    rom: "bytes self = Inr rom" and
    run: "subprocess_run tool (flash_args self b)
            (snd (file_write write_eeprom_bin rom
                   (snd (open_wb write_eeprom_bin (cleaned write_eeprom_bin w))))) = (Inr r, w1)" and
    rm: "os_remove write_eeprom_bin w1 = (Inr u, w')"
    unfolding flash_def preclean
    by (auto simp: iobind_Inr_iff ioreturn_def lift_def open_wb_def file_write_def)
  show ?thesis
    using rom subprocess_run_Inr [OF run] os_remove_Inr [OF rm]
    by (simp add: open_wb_def file_write_def)
qed

lemma verify_Inr:
  assumes "verify tool self b w = (Inr r, w')"
  shows "files w' verify_eeprom_bin = None
    \<and> (\<exists>rom. bytes self = Inr rom
         \<and> log w' = log (cleaned verify_eeprom_bin w)
             @ [Created verify_eeprom_bin, Wrote verify_eeprom_bin rom,
                Ran (verify_args self b) 0, Removed verify_eeprom_bin])"
proof -
  from assms obtain rom w1 u where
    rom: "bytes self = Inr rom" and
    run: "subprocess_run tool (verify_args self b)
            (snd (file_write verify_eeprom_bin rom
                   (snd (open_wb verify_eeprom_bin (cleaned verify_eeprom_bin w))))) = (Inr r, w1)" and
    rm: "os_remove verify_eeprom_bin w1 = (Inr u, w')"
    unfolding verify_def preclean
    by (auto simp: iobind_Inr_iff ioreturn_def lift_def open_wb_def file_write_def)
  show ?thesis
    using rom subprocess_run_Inr [OF run] os_remove_Inr [OF rm]
    by (simp add: open_wb_def file_write_def)
qed

lemma iteration_Inr:
  assumes "iteration tool a cur w = (Inr u, w')"
  shows "\<exists>eeprom evs.
      init_default (arg_majorVersion a) (arg_minorVersion a) (str_int cur) (arg_product a) = Inr eeprom
    \<and> log w' = log w @ evs
    \<and> invocations evs =
        [(read_args eeprom (arg_bin a), 0), (erase_args eeprom (arg_bin a), 0),
         (flash_args eeprom (arg_bin a), 0), (verify_args eeprom (arg_bin a), 0),
         (read_args eeprom (arg_bin a), 0)]"
proof -
  from assms obtain eeprom read_init w1 r2 w2 r3 w3 r4 w4 read_again w5 where
    e: "init_default (arg_majorVersion a) (arg_minorVersion a) (str_int cur) (arg_product a) = Inr eeprom" and
    r1: "read tool eeprom (arg_bin a) w = (Inr read_init, w1)" and
    er: "erase tool eeprom (arg_bin a) w1 = (Inr r2, w2)" and
    fl: "flash tool eeprom (arg_bin a) w2 = (Inr r3, w3)" and
    ve: "verify tool eeprom (arg_bin a) w3 = (Inr r4, w4)" and
    r2: "read tool eeprom (arg_bin a) (snd (emit (PrintFlashed (arg_product a) cur) w4))
           = (Inr read_again, w5)" and
    w': "w' = w5\<lparr>log := log w5 @ [PrintLine (ords ''New EEPROM Contents:''),
                 PrintContents (take 127 read_again), PrintLine []]\<rparr>"
    unfolding iteration_def
    by (auto simp: iobind_Inr_iff lift_def emit_def ioraise_def ioreturn_def split: if_splits)
  from flash_Inr [OF fl] obtain rom3 where
    l3: "log w3 = log (cleaned write_eeprom_bin w2)
             @ [Created write_eeprom_bin, Wrote write_eeprom_bin rom3,
                Ran (flash_args eeprom (arg_bin a)) 0, Removed write_eeprom_bin]" by blast
  from verify_Inr [OF ve] obtain rom4 where
    l4: "log w4 = log (cleaned verify_eeprom_bin w3)
             @ [Created verify_eeprom_bin, Wrote verify_eeprom_bin rom4,
                Ran (verify_args eeprom (arg_bin a)) 0, Removed verify_eeprom_bin]" by blast
  have "\<exists>evs. log w' = log w @ evs
    \<and> invocations evs =
        [(read_args eeprom (arg_bin a), 0), (erase_args eeprom (arg_bin a), 0),
         (flash_args eeprom (arg_bin a), 0), (verify_args eeprom (arg_bin a), 0),
         (read_args eeprom (arg_bin a), 0)]"
    unfolding w' using read_Inr [OF r1] erase_Inr [OF er] l3 l4 read_Inr [OF r2]
    by (simp add: emit_def invocations_append)
  with e show ?thesis by blast
qed

text \<open>
  A file left behind is removed before anything else happens.
\<close>

lemma read_removes_first:
  assumes "files w read_eeprom_bin \<noteq> None"
  shows "\<exists>evs. log (snd (read tool self b w)) = log w @ Removed read_eeprom_bin # evs"
proof -
  let ?k = "\<lambda>_::unit. iobind (subprocess_run tool (read_args self b)) (\<lambda>r.
     iobind (file_read read_eeprom_bin) (\<lambda>data.
     iobind (os_remove read_eeprom_bin) (\<lambda>_.
     ioreturn data)))"
  have "tracked (?k ())" by (intro tracked_iobind) simp_all
  from tracked_log [OF this, of "cleaned read_eeprom_bin w"]
  show ?thesis using assms unfolding read_def preclean by simp
qed

lemma flash_removes_first:
  assumes "files w write_eeprom_bin \<noteq> None"
  shows "\<exists>evs. log (snd (flash tool self b w))
           = log w @ Removed write_eeprom_bin # Created write_eeprom_bin # evs"
proof -
  let ?k = "\<lambda>_::unit. iobind (lift (bytes self)) (\<lambda>rom.
     iobind (file_write write_eeprom_bin rom) (\<lambda>_.
     iobind (subprocess_run tool (flash_args self b)) (\<lambda>r.
     iobind (os_remove write_eeprom_bin) (\<lambda>_.
     ioreturn r))))"
  have "tracked (?k ())" by (intro tracked_iobind) simp_all
  from tracked_log [OF this, of "snd (open_wb write_eeprom_bin (cleaned write_eeprom_bin w))"]
  show ?thesis using assms unfolding flash_def preclean
    by (simp add: iobind_def open_wb_def)
qed

lemma verify_removes_first:
  assumes "files w verify_eeprom_bin \<noteq> None"
  shows "\<exists>evs. log (snd (verify tool self b w))
           = log w @ Removed verify_eeprom_bin # Created verify_eeprom_bin # evs"
proof -
  let ?k = "\<lambda>_::unit. iobind (lift (bytes self)) (\<lambda>rom.
     iobind (file_write verify_eeprom_bin rom) (\<lambda>_.
     iobind (subprocess_run tool (verify_args self b)) (\<lambda>r.
     iobind (os_remove verify_eeprom_bin) (\<lambda>_.
     ioreturn r))))"
  have "tracked (?k ())" by (intro tracked_iobind) simp_all
  from tracked_log [OF this, of "snd (open_wb verify_eeprom_bin (cleaned verify_eeprom_bin w))"]
  show ?thesis using assms unfolding verify_def preclean
    by (simp add: iobind_def open_wb_def)
qed

text \<open>
  The operations with the stand-in programmer.
\<close>

lemma str_int_13374204: "str_int 13374204 = ords ''13374204''"
  by (simp add: str_int_def digits.simps ords_13374204)

lemma example_args_init:
  "init_default (arg_majorVersion example_args) (arg_minorVersion example_args)
     (str_int 13374204) (arg_product example_args) = Inr example_eeprom"
  by (simp add: example_args_def str_int_13374204 example_eeprom_init)

lemma flags_distinct: "ords ''--erase'' \<noteq> ords ''--read''" "ords ''--write'' \<noteq> ords ''--read''"
  "ords ''--verify'' \<noteq> ords ''--read''" "ords ''--write'' \<noteq> ords ''--erase''"
  "ords ''--verify'' \<noteq> ords ''--erase''"
  by (simp_all add: ords_def)

lemma names_distinct:
  "read_eeprom_bin \<noteq> write_eeprom_bin" "read_eeprom_bin \<noteq> verify_eeprom_bin"
  "write_eeprom_bin \<noteq> verify_eeprom_bin"
  by (simp_all add: read_eeprom_bin_def write_eeprom_bin_def verify_eeprom_bin_def ords_def)

lemma stale_world_files:
  "files stale_world read_eeprom_bin = Some [1, 2, 3]"
  "files stale_world write_eeprom_bin = Some [4, 5]"
  "files stale_world verify_eeprom_bin = Some [6]"
  using names_distinct by (simp_all add: stale_world_def)

lemma stub_read:
  "read (stub_tool n st) self b w =
     (Inr (replicate n 0),
      w\<lparr> files := (files w)(read_eeprom_bin := None),
         log := log (cleaned read_eeprom_bin w)
           @ [Ran (read_args self b) 0, Loaded read_eeprom_bin, Removed read_eeprom_bin] \<rparr>)"
  unfolding read_def preclean
  by (simp add: iobind_def subprocess_run_def stub_tool_def read_args_def file_read_def
      os_remove_def ioreturn_def cleaned_def)

lemma stub_erase:
  "erase (stub_tool n st) self b w =
     (if st \<noteq> 0 then Inl (CalledProcessError st) else Inr st,
      w\<lparr> log := log w @ [Ran (erase_args self b) st] \<rparr>)"
  by (simp add: erase_def subprocess_run_def stub_tool_def erase_args_def flags_distinct)

lemma stub_flash:
  "bytes self = Inr rom \<Longrightarrow>
   flash (stub_tool n st) self b w =
     (Inr 0,
      w\<lparr> files := (files w)(write_eeprom_bin := None),
         log := log (cleaned write_eeprom_bin w)
           @ [Created write_eeprom_bin, Wrote write_eeprom_bin rom,
              Ran (flash_args self b) 0, Removed write_eeprom_bin] \<rparr>)"
  unfolding flash_def preclean
  by (simp add: iobind_def subprocess_run_def stub_tool_def flash_args_def lift_def
      open_wb_def file_write_def os_remove_def ioreturn_def cleaned_def flags_distinct)

lemma stub_verify:
  "bytes self = Inr rom \<Longrightarrow>
   verify (stub_tool n st) self b w =
     (Inr 0,
      w\<lparr> files := (files w)(verify_eeprom_bin := None),
         log := log (cleaned verify_eeprom_bin w)
           @ [Created verify_eeprom_bin, Wrote verify_eeprom_bin rom,
              Ran (verify_args self b) 0, Removed verify_eeprom_bin] \<rparr>)"
  unfolding verify_def preclean
  by (simp add: iobind_def subprocess_run_def stub_tool_def verify_args_def lift_def
      open_wb_def file_write_def os_remove_def ioreturn_def cleaned_def flags_distinct)

section \<open>Device operations and the loop: properties\<close>

text \<open>
  C6. In an iteration of the loop started in any world, if the first read returns data
  whose length differs from \<open>size_bytes\<close>, the iteration ends with the read-size error
  in the world the read left, the loop ends with that error and the counter unchanged,
  and since the prompt the programmer has been invoked once, for the read, and no file
  has been created or written: no erase and no flash has started.
\<close>

theorem read_size_mismatch_aborts:
  assumes "init_default (arg_majorVersion a) (arg_minorVersion a) (str_int cur) (arg_product a)
             = Inr eeprom"
    and "read tool eeprom (arg_bin a) (snd (emit (Prompt cur) w)) = (Inr read_init, w1)"
    and "int (length read_init) \<noteq> size_bytes eeprom"
  shows "iteration tool a cur (snd (emit (Prompt cur) w))
           = (Inl (ReadSizeError (size_bytes eeprom) (length read_init)), w1)
    \<and> batch_loop tool a (line # stdin) cur w
           = (ReadSizeError (size_bytes eeprom) (length read_init), cur, w1)
    \<and> (\<exists>evs. log w1 = log w @ Prompt cur # evs
          \<and> invocations evs = [(read_args eeprom (arg_bin a), 0)]
          \<and> (\<forall>p data. Created p \<notin> set evs \<and> Wrote p data \<notin> set evs))"
proof -
  have it: "iteration tool a cur (snd (emit (Prompt cur) w))
           = (Inl (ReadSizeError (size_bytes eeprom) (length read_init)), w1)"
    unfolding iteration_def using assms
    by (simp add: iobind_def lift_def ioraise_def)
  then have lp: "batch_loop tool a (line # stdin) cur w
           = (ReadSizeError (size_bytes eeprom) (length read_init), cur, w1)"
    by simp
  have "\<exists>evs. log w1 = log w @ Prompt cur # evs
          \<and> invocations evs = [(read_args eeprom (arg_bin a), 0)]
          \<and> (\<forall>p data. Created p \<notin> set evs \<and> Wrote p data \<notin> set evs)"
    using read_Inr [OF assms(2)] by (simp add: emit_def)
  with it lp show ?thesis by blast
qed

text \<open>
  A programmer whose read delivers 3 bytes.
\<close>

theorem read_size_mismatch_aborts_witness:
  "batch_loop (stub_tool 3 0) example_args [[]] 13374204 empty_world
     = (ReadSizeError 256 3, 13374204,
        snd (read (stub_tool 3 0) example_eeprom (arg_bin example_args)
              (snd (emit (Prompt 13374204) empty_world))))
   \<and> invocations (log (snd (snd (batch_loop (stub_tool 3 0) example_args [[]] 13374204 empty_world))))
       = [(read_args example_eeprom (arg_bin example_args), 0)]"
proof -
  let ?w = "snd (emit (Prompt 13374204) empty_world)"
  let ?w1 = "snd (read (stub_tool 3 0) example_eeprom (arg_bin example_args) ?w)"
  have rd: "read (stub_tool 3 0) example_eeprom (arg_bin example_args) ?w
      = (Inr (replicate 3 0), ?w1)"
    by (simp add: stub_read)
  have ne: "int (length (replicate 3 (0::int))) \<noteq> size_bytes example_eeprom"
    by (simp add: example_eeprom_ok)
  from read_size_mismatch_aborts [OF example_args_init rd ne, of "[]" "[]"]
  have lp: "batch_loop (stub_tool 3 0) example_args [[]] 13374204 empty_world
     = (ReadSizeError 256 3, 13374204, ?w1)"
    by (simp add: example_eeprom_ok)
  have "invocations (log ?w1) = [(read_args example_eeprom (arg_bin example_args), 0)]"
    by (simp add: stub_read emit_def empty_world_def)
  with lp show ?thesis by simp
qed

text \<open>
  C7. In an iteration of the loop started in any world: if any programmer invocation
  of the iteration exited with a non-zero status, the loop ends with that
  \<open>CalledProcessError\<close> and the counter it had at the prompt; any exception of the
  iteration ends the loop with the counter unchanged; and the loop goes on with the
  counter plus one only when the iteration returned, and then the iteration invoked
  the programmer exactly five times, for read, erase, flash, verify and read, each
  with exit status 0.
\<close>

theorem failed_step_keeps_counter:
  assumes "iteration tool a cur (snd (emit (Prompt cur) w)) = (r, w')"
  shows "\<exists>evs. log w' = log w @ Prompt cur # evs
    \<and> (\<forall>args rc. Ran args rc \<in> set evs \<and> rc \<noteq> 0 \<longrightarrow>
          batch_loop tool a (line # stdin) cur w = (CalledProcessError rc, cur, w'))
    \<and> (\<forall>e. r = Inl e \<longrightarrow> batch_loop tool a (line # stdin) cur w = (e, cur, w'))
    \<and> (\<forall>u. r = Inr u \<longrightarrow>
          batch_loop tool a (line # stdin) cur w = batch_loop tool a stdin (cur + 1) w'
          \<and> (\<exists>eeprom.
                init_default (arg_majorVersion a) (arg_minorVersion a) (str_int cur)
                  (arg_product a) = Inr eeprom
              \<and> invocations evs =
                  [(read_args eeprom (arg_bin a), 0), (erase_args eeprom (arg_bin a), 0),
                   (flash_args eeprom (arg_bin a), 0), (verify_args eeprom (arg_bin a), 0),
                   (read_args eeprom (arg_bin a), 0)]))"
proof -
  let ?w0 = "snd (emit (Prompt cur) w)"
  have l0: "log ?w0 = log w @ [Prompt cur]" by (simp add: emit_def)
  from tracked_iteration [of tool a cur] obtain evs where
    evs: "log w' = log ?w0 @ evs" and
    fail: "\<And>args rc. Ran args rc \<in> set evs \<Longrightarrow> rc \<noteq> 0 \<Longrightarrow> r = Inl (CalledProcessError rc)"
    unfolding tracked_def using assms by (metis fst_conv snd_conv)
  have log: "log w' = log w @ Prompt cur # evs" using evs l0 by simp
  have inl: "batch_loop tool a (line # stdin) cur w = (e, cur, w')" if "r = Inl e" for e
    using that assms by simp
  have inr: "batch_loop tool a (line # stdin) cur w = batch_loop tool a stdin (cur + 1) w'"
    if "r = Inr u" for u
    using that assms by simp
  have five: "\<exists>eeprom.
                init_default (arg_majorVersion a) (arg_minorVersion a) (str_int cur)
                  (arg_product a) = Inr eeprom
              \<and> invocations evs =
                  [(read_args eeprom (arg_bin a), 0), (erase_args eeprom (arg_bin a), 0),
                   (flash_args eeprom (arg_bin a), 0), (verify_args eeprom (arg_bin a), 0),
                   (read_args eeprom (arg_bin a), 0)]"
    if "r = Inr u" for u
  proof -
    from that assms have "iteration tool a cur ?w0 = (Inr u, w')" by simp
    from iteration_Inr [OF this] evs show ?thesis by auto
  qed
  show ?thesis
    using log fail inl inr five by blast
qed

text \<open>
  A programmer whose erase exits with status 1 ends the loop at the first unit with
  the counter still 13374204; one that always succeeds takes the counter to 13374205,
  where the loop waits for the operator and the input has ended.
\<close>

theorem failed_step_keeps_counter_witness:
  "batch_loop (stub_tool 256 1) example_args [[], []] 13374204 empty_world
     = (CalledProcessError 1, 13374204,
        snd (iteration (stub_tool 256 1) example_args 13374204
              (snd (emit (Prompt 13374204) empty_world))))
   \<and> batch_loop (stub_tool 256 0) example_args [[]] 13374204 empty_world
     = (EOFError, 13374205,
        snd (emit (Prompt 13374205)
          (snd (iteration (stub_tool 256 0) example_args 13374204
              (snd (emit (Prompt 13374204) empty_world))))))"
proof -
  let ?w0 = "snd (emit (Prompt 13374204) empty_world)"
  let ?bad = "iteration (stub_tool 256 1) example_args 13374204 ?w0"
  let ?good = "iteration (stub_tool 256 0) example_args 13374204 ?w0"
  have bad_log: "log (snd ?bad) = log empty_world @ Prompt 13374204 #
      [Ran (read_args example_eeprom (arg_bin example_args)) 0, Loaded read_eeprom_bin,
       Removed read_eeprom_bin, Ran (erase_args example_eeprom (arg_bin example_args)) 1]"
    unfolding iteration_def
    by (simp add: iobind_def lift_def example_args_init stub_read stub_erase ioreturn_def
        example_eeprom_ok emit_def empty_world_def)
  have hyp_bad: "?bad = (fst ?bad, snd ?bad)" by simp
  from failed_step_keeps_counter [OF hyp_bad, of "[]" "[[]]"]
  obtain evs where
    evs: "log (snd ?bad) = log empty_world @ Prompt 13374204 # evs" and
    fail: "\<And>args rc. Ran args rc \<in> set evs \<and> rc \<noteq> 0 \<Longrightarrow>
          batch_loop (stub_tool 256 1) example_args [[], []] 13374204 empty_world
            = (CalledProcessError rc, 13374204, snd ?bad)"
    by blast
  from evs bad_log
  have "evs = [Ran (read_args example_eeprom (arg_bin example_args)) 0, Loaded read_eeprom_bin,
       Removed read_eeprom_bin, Ran (erase_args example_eeprom (arg_bin example_args)) 1]"
    by simp
  then have "Ran (erase_args example_eeprom (arg_bin example_args)) 1 \<in> set evs" by simp
  then have a: "batch_loop (stub_tool 256 1) example_args [[], []] 13374204 empty_world
            = (CalledProcessError 1, 13374204, snd ?bad)"
    using fail by simp
  have good: "fst ?good = Inr ()"
    unfolding iteration_def
    by (simp add: iobind_def lift_def example_args_init stub_read stub_erase ioreturn_def
        stub_flash [OF example_eeprom_bytes] stub_verify [OF example_eeprom_bytes]
        example_eeprom_ok emit_def)
  have hyp: "?good = (fst ?good, snd ?good)" by simp
  from failed_step_keeps_counter [OF hyp, of "[]" "[]"]
  have "\<forall>u. fst ?good = Inr u \<longrightarrow>
          batch_loop (stub_tool 256 0) example_args [[]] 13374204 empty_world
            = batch_loop (stub_tool 256 0) example_args [] (13374204 + 1) (snd ?good)"
    by blast
  with good
  have "batch_loop (stub_tool 256 0) example_args [[]] 13374204 empty_world
     = batch_loop (stub_tool 256 0) example_args [] (13374204 + 1) (snd ?good)"
    by blast
  then have b: "batch_loop (stub_tool 256 0) example_args [[]] 13374204 empty_world
     = (EOFError, 13374205, snd (emit (Prompt 13374205) (snd ?good)))"
    by simp
  from a b show ?thesis by simp
qed

text \<open>
  C8. For read, flash and verify, with any programmer and in any world: when the
  operation returns, its temporary file does not exist; and when the file exists
  beforehand, the first thing the operation does is remove it, before the programmer
  is started (read) or the file is created for writing (flash, verify).
\<close>

theorem temporary_files_removed:
  "(read tool self b w = (Inr data, w1) \<longrightarrow> files w1 read_eeprom_bin = None)
   \<and> (flash tool self b w = (Inr r2, w2) \<longrightarrow> files w2 write_eeprom_bin = None)
   \<and> (verify tool self b w = (Inr r3, w3) \<longrightarrow> files w3 verify_eeprom_bin = None)
   \<and> (files w read_eeprom_bin \<noteq> None \<longrightarrow>
        (\<exists>evs. log (snd (read tool self b w)) = log w @ Removed read_eeprom_bin # evs))
   \<and> (files w write_eeprom_bin \<noteq> None \<longrightarrow>
        (\<exists>evs. log (snd (flash tool self b w))
           = log w @ Removed write_eeprom_bin # Created write_eeprom_bin # evs))
   \<and> (files w verify_eeprom_bin \<noteq> None \<longrightarrow>
        (\<exists>evs. log (snd (verify tool self b w))
           = log w @ Removed verify_eeprom_bin # Created verify_eeprom_bin # evs))"
  using read_Inr [of tool self b w data w1] flash_Inr [of tool self b w r2 w2]
    verify_Inr [of tool self b w r3 w3]
    read_removes_first [of w tool self b] flash_removes_first [of w tool self b]
    verify_removes_first [of w tool self b]
  by blast

text \<open>
  A world where the three files were left behind.
\<close>

theorem temporary_files_removed_witness:
  "files stale_world read_eeprom_bin = Some [1, 2, 3]
   \<and> files (snd (read (stub_tool 256 0) example_eeprom [] stale_world)) read_eeprom_bin = None
   \<and> files (snd (flash (stub_tool 256 0) example_eeprom [] stale_world)) write_eeprom_bin = None
   \<and> files (snd (verify (stub_tool 256 0) example_eeprom [] stale_world)) verify_eeprom_bin = None
   \<and> take 1 (log (snd (read (stub_tool 256 0) example_eeprom [] stale_world)))
        = [Removed read_eeprom_bin]
   \<and> take 2 (log (snd (flash (stub_tool 256 0) example_eeprom [] stale_world)))
        = [Removed write_eeprom_bin, Created write_eeprom_bin]
   \<and> take 2 (log (snd (verify (stub_tool 256 0) example_eeprom [] stale_world)))
        = [Removed verify_eeprom_bin, Created verify_eeprom_bin]"
proof -
  let ?rd = "read (stub_tool 256 0) example_eeprom [] stale_world"
  let ?fl = "flash (stub_tool 256 0) example_eeprom [] stale_world"
  let ?ve = "verify (stub_tool 256 0) example_eeprom [] stale_world"
  have l0: "log stale_world = []" by (simp add: stale_world_def)
  have rd: "?rd = (Inr (replicate 256 0), snd ?rd)" by (simp add: stub_read)
  have fl: "?fl = (Inr 0, snd ?fl)" by (simp add: stub_flash [OF example_eeprom_bytes])
  have ve: "?ve = (Inr 0, snd ?ve)" by (simp add: stub_verify [OF example_eeprom_bytes])
  from temporary_files_removed [of "stub_tool 256 0" example_eeprom "[]" stale_world
      "replicate 256 0" "snd ?rd" 0 "snd ?fl" 0 "snd ?ve"] rd fl ve stale_world_files l0
  show ?thesis by auto
qed

end
